theory Spec2Isabelle
  imports Main "HOL-Library.Word" "HOL-Library.Sublist"
begin

unbundle bit_operations_syntax

section \<open>LSC user credentials package generation (src/lsc\_user.c)\<close>

text \<open>
  The C file drives four external tools (ssh-keygen, the RPM and DEB creator scripts,
  makensis) inside temporary directories. The embedding threads an explicit \<open>world\<close>
  (file system plus a chronological trace of the calls made) through every function.
  Whatever the C code cannot decide by itself (the name \<open>mkdtemp\<close> picks, an I/O
  fault, what a spawned program does and how it exits) is read from an \<open>env\<close>
  parameter, so every theorem quantified over \<open>env\<close> covers every behaviour of the
  surroundings. A C string is a \<open>string\<close>; the two pointers the code tests against
  NULL (\<open>comment\<close> and \<open>passphrase\<close>) are options, every other pointer argument is
  dereferenced unchecked by the C code and is taken to be a proper string.
\<close>

subsection \<open>Data\<close>

type_synonym path = string

type_synonym gint = "32 word"

text \<open>What \<open>g_spawn_sync\<close> / \<open>g_spawn_command_line_sync\<close> hand back: the gboolean
  result, the wait status stored in \<open>exit_status\<close>, the captured streams (NULL is
  \<open>None\<close>) and the message of the GError, if one was set.\<close>

record outcome =
  spawned :: bool
  exit_status :: gint
  standard_out :: "string option"
  standard_err :: "string option"
  err_message :: "string option"

text \<open>A logged message is kept as its printf format and its argument list.\<close>

datatype log_arg = LStr string | LNull | LInt int

datatype event =
    EMkdtemp path
  | EMkdirWithParents path
  | ESetContents path
  | ECopy path path
  | EFopen path
  | EFclose path
  | ESpawn path "string list" outcome
  | ESpawnCommandLine string outcome
  | EGetContents path "string option"
  | ERemoveRecurse path
  | EDebug string "log_arg list"
  | EWarning string "log_arg list"

record world =
  files :: "path \<rightharpoonup> string"
  dirs :: "path set"
  trace :: "event list"

datatype io_call =
    IoMkdir path
  | IoSetContents path
  | IoCopy path path
  | IoFopen path
  | IoFclose path
  | IoGetContents path
  | IoRemove path

text \<open>The surroundings. \<open>GVM_DATA_DIR\<close> is a build-time macro that the C file uses
  but does not define; the remaining fields are oracles consulted at each call.\<close>

record env =
  GVM_DATA_DIR :: path
  mkdtemp_suffix :: "string \<Rightarrow> world \<Rightarrow> string option"
  io_fault :: "io_call \<Rightarrow> world \<Rightarrow> bool"
  run_argv :: "path \<Rightarrow> string list \<Rightarrow> world \<Rightarrow> outcome \<times> world"
  run_command_line :: "string \<Rightarrow> world \<Rightarrow> outcome \<times> world"

subsection \<open>Library calls the C file relies on\<close>

text \<open>
  These are functions of GLib, gvm-libs and libc, not of this repository. Each is
  modelled after its documented POSIX behaviour, with every failure it can report kept
  as a branch.
\<close>

definition is_sep :: "char \<Rightarrow> bool" where
  "is_sep c = (c = CHR ''/'')"

text \<open>\<open>g_path_get_dirname\<close>: no separator gives \<open>"."\<close>; otherwise the text up to the
  last separator with the separators at its end dropped, but never fewer than one
  character.\<close>

definition g_path_get_dirname :: "path \<Rightarrow> path" where
  "g_path_get_dirname file_name =
     (if \<not> list_ex is_sep file_name then ''.''
      else let d = rev (dropWhile is_sep (dropWhile (\<lambda>c. \<not> is_sep c) (rev file_name)))
           in if d = [] then ''/'' else d)"

text \<open>\<open>g_build_filename\<close> (GLib's \<open>g_build_path_va\<close> with separator \<open>"/"\<close>): empty
  elements are skipped, the separators at the boundary of two elements are replaced by
  exactly one, the leading separators of the first element and the trailing ones of the
  last element are kept, and a lone element made of separators only is returned as it
  is.\<close>

fun g_build_path_va ::
  "string list \<Rightarrow> string \<Rightarrow> bool \<Rightarrow> bool \<Rightarrow> string option \<Rightarrow> string \<Rightarrow> string" where
  "g_build_path_va [] result is_first have_leading single_element last_trailing =
     (case single_element of Some e \<Rightarrow> e | None \<Rightarrow> result @ last_trailing)"
| "g_build_path_va (element # rest) result is_first have_leading single_element last_trailing =
     (if element = [] then
        g_build_path_va rest result is_first have_leading single_element last_trailing
      else
        let start = dropWhile is_sep element;
            middle = rev (dropWhile is_sep (rev start));
            trailing = takeWhile is_sep (rev element);
            single' = (if have_leading then None
                       else if middle = [] then Some element else single_element);
            result' = (if have_leading then result else result @ takeWhile is_sep element)
        in if middle = [] then g_build_path_va rest result' is_first True single' trailing
           else g_build_path_va rest
                  (result' @ (if is_first then [] else ''/'') @ middle) False True single' trailing)"

definition g_build_filename :: "string list \<Rightarrow> path" where
  "g_build_filename elements = g_build_path_va elements [] True False None []"

text \<open>The macros of \<open><sys/wait.h>\<close> on a wait status (Linux encoding).\<close>

definition WIFEXITED :: "gint \<Rightarrow> gint" where
  "WIFEXITED status = (if status AND 0x7f = 0 then 1 else 0)"

definition WEXITSTATUS :: "gint \<Rightarrow> gint" where
  "WEXITSTATUS status = drop_bit 8 (status AND 0xff00)"

definition record_event :: "event \<Rightarrow> world \<Rightarrow> world" where
  "record_event ev w = w\<lparr>trace := trace w @ [ev]\<rparr>"

definition g_debug :: "string \<Rightarrow> log_arg list \<Rightarrow> world \<Rightarrow> world" where
  "g_debug fmt args w = record_event (EDebug fmt args) w"

definition g_warning :: "string \<Rightarrow> log_arg list \<Rightarrow> world \<Rightarrow> world" where
  "g_warning fmt args w = record_event (EWarning fmt args) w"

definition log_opt :: "string option \<Rightarrow> log_arg" where
  "log_opt s = (case s of None \<Rightarrow> LNull | Some t \<Rightarrow> LStr t)"

text \<open>\<open>mkdtemp\<close>: the last six characters of the template are replaced; the directory
  is new, and its parent has to exist. \<open>None\<close> is the NULL result.\<close>

definition mkdtemp :: "env \<Rightarrow> string \<Rightarrow> world \<Rightarrow> path option \<times> world" where
  "mkdtemp e template w =
     (case mkdtemp_suffix e template w of
        None \<Rightarrow> (None, w)
      | Some sfx \<Rightarrow>
          let d = take (length template - 6) template @ sfx in
          if length sfx = 6 \<and> \<not> list_ex is_sep sfx \<and> d \<notin> dirs w \<and> files w d = None
             \<and> g_path_get_dirname d \<in> dirs w
          then (Some d, record_event (EMkdtemp d) (w\<lparr>dirs := insert d (dirs w)\<rparr>))
          else (None, w))"

definition ancestors_or_self :: "path \<Rightarrow> path list" where
  "ancestors_or_self p =
     filter (\<lambda>q. q \<noteq> []) (map (\<lambda>i. take i p) (filter (\<lambda>i. is_sep (p ! i)) [0..<length p]))
       @ [p]"

text \<open>\<open>g_mkdir_with_parents\<close>: 0 when the directory exists afterwards, -1 otherwise.\<close>

definition g_mkdir_with_parents :: "env \<Rightarrow> path \<Rightarrow> world \<Rightarrow> int \<times> world" where
  "g_mkdir_with_parents e dir w =
     (let w1 = record_event (EMkdirWithParents dir) w in
      if io_fault e (IoMkdir dir) w \<or> list_ex (\<lambda>q. files w q \<noteq> None) (ancestors_or_self dir)
      then (-1, w1)
      else (0, w1\<lparr>dirs := dirs w \<union> set (ancestors_or_self dir)\<rparr>))"

definition under :: "path \<Rightarrow> path \<Rightarrow> bool" where
  "under d p = (p = d \<or> prefix (d @ ''/'') p)"

text \<open>\<open>gvm_file_remove_recurse\<close> (gvm-libs): removes the file or the directory with all
  it holds; 0 on success, -1 otherwise.\<close>

definition gvm_file_remove_recurse :: "env \<Rightarrow> path \<Rightarrow> world \<Rightarrow> int \<times> world" where
  "gvm_file_remove_recurse e pathname w =
     (let w1 = record_event (ERemoveRecurse pathname) w in
      if io_fault e (IoRemove pathname) w \<or> (pathname \<notin> dirs w \<and> files w pathname = None)
      then (-1, w1)
      else (0, w1\<lparr>files := (\<lambda>p. if under pathname p then None else files w p),
                   dirs := Set.filter (\<lambda>p. \<not> under pathname p) (dirs w)\<rparr>))"

text \<open>\<open>gvm_file_copy\<close> (gvm-libs): TRUE when the destination holds a copy of the
  source.\<close>

definition gvm_file_copy :: "env \<Rightarrow> path \<Rightarrow> path \<Rightarrow> world \<Rightarrow> bool \<times> world" where
  "gvm_file_copy e source_file dest_file w =
     (let w1 = record_event (ECopy source_file dest_file) w in
      case files w source_file of
        None \<Rightarrow> (False, w1)
      | Some content \<Rightarrow>
          if io_fault e (IoCopy source_file dest_file) w \<or> dest_file \<in> dirs w
             \<or> g_path_get_dirname dest_file \<notin> dirs w
          then (False, w1)
          else (True, w1\<lparr>files := (files w)(dest_file \<mapsto> content)\<rparr>))"

text \<open>\<open>g_file_set_contents\<close>: the Boolean is "no GError was set".\<close>

definition g_file_set_contents :: "env \<Rightarrow> path \<Rightarrow> string \<Rightarrow> world \<Rightarrow> bool \<times> world" where
  "g_file_set_contents e filename contents w =
     (let w1 = record_event (ESetContents filename) w in
      if io_fault e (IoSetContents filename) w \<or> filename \<in> dirs w
         \<or> g_path_get_dirname filename \<notin> dirs w
      then (False, w1)
      else (True, w1\<lparr>files := (files w)(filename \<mapsto> contents)\<rparr>))"

text \<open>\<open>g_file_get_contents\<close>: the whole file, or \<open>None\<close> when a GError was set (the
  out-parameter is then NULL). The trace keeps what was loaded.\<close>

definition g_file_get_contents :: "env \<Rightarrow> path \<Rightarrow> world \<Rightarrow> string option \<times> world" where
  "g_file_get_contents e filename w =
     (let contents = (if io_fault e (IoGetContents filename) w then None else files w filename)
      in (contents, record_event (EGetContents filename contents) w))"

text \<open>A buffer handed out as a \<open>gchar *\<close> without its length is read as a C string:
  whoever receives it sees the bytes before the first NUL.\<close>

definition c_string :: "string \<Rightarrow> string" where
  "c_string buffer = takeWhile (\<lambda>c. c \<noteq> CHR 0x00) buffer"

text \<open>\<open>fopen (name, "w")\<close> truncates or creates the file; the stream is identified by
  its path. \<open>fprintf\<close> appends, \<open>fclose\<close> reports a fault as non-zero.\<close>

definition fopen_w :: "env \<Rightarrow> path \<Rightarrow> world \<Rightarrow> path option \<times> world" where
  "fopen_w e name w =
     (let w1 = record_event (EFopen name) w in
      if io_fault e (IoFopen name) w \<or> name \<in> dirs w \<or> g_path_get_dirname name \<notin> dirs w
      then (None, w1)
      else (Some name, w1\<lparr>files := (files w)(name \<mapsto> [])\<rparr>))"

text \<open>The conversions the C file uses: \<open>%s\<close> takes the next argument, \<open>%%\<close> is a
  percent sign.\<close>

fun c_format :: "string \<Rightarrow> string list \<Rightarrow> string" where
  "c_format [] args = []"
| "c_format [c] args = [c]"
| "c_format (c # d # fmt) args =
     (if c = CHR ''%'' \<and> d = CHR ''%'' then CHR ''%'' # c_format fmt args
      else if c = CHR ''%'' \<and> d = CHR ''s'' then
        (case args of [] \<Rightarrow> c_format fmt [] | a # args' \<Rightarrow> a @ c_format fmt args')
      else c # c_format (d # fmt) args)"

definition fprintf :: "path \<Rightarrow> string \<Rightarrow> string list \<Rightarrow> world \<Rightarrow> world" where
  "fprintf fd fmt args w =
     w\<lparr>files := (files w)(fd \<mapsto> (case files w fd of None \<Rightarrow> [] | Some s \<Rightarrow> s) @ c_format fmt args)\<rparr>"

definition fclose :: "env \<Rightarrow> path \<Rightarrow> world \<Rightarrow> int \<times> world" where
  "fclose e fd w =
     (let w1 = record_event (EFclose fd) w in
      if io_fault e (IoFclose fd) w then (-1, w1) else (0, w1))"

text \<open>Spawning: the oracle says how the child ended and what it left on disk; the call
  and its outcome are appended to the trace.\<close>

definition g_spawn_sync :: "env \<Rightarrow> path \<Rightarrow> string list \<Rightarrow> world \<Rightarrow> outcome \<times> world" where
  "g_spawn_sync e working_directory argv w =
     (let (out, w') = run_argv e working_directory argv w
      in (out, w'\<lparr>trace := trace w @ [ESpawn working_directory argv out]\<rparr>))"

definition g_spawn_command_line_sync :: "env \<Rightarrow> string \<Rightarrow> world \<Rightarrow> outcome \<times> world" where
  "g_spawn_command_line_sync e command_line w =
     (let (out, w') = run_command_line e command_line w
      in (out, w'\<lparr>trace := trace w @ [ESpawnCommandLine command_line out]\<rparr>))"

subsection \<open>Key creation\<close>

text \<open>The test written three times in the C file, after each spawn:
  \<open>(spawn (...) == FALSE) || (WIFEXITED (exit_status) == 0) || WEXITSTATUS (exit_status)\<close>.\<close>

definition invocation_failed :: "outcome \<Rightarrow> bool" where
  "invocation_failed out =
     (spawned out = False \<or> WIFEXITED (exit_status out) = 0 \<or> WEXITSTATUS (exit_status out) \<noteq> 0)"

definition wait_args :: "outcome \<Rightarrow> log_arg list" where
  "wait_args out =
     [LInt (sint (exit_status out)), LInt (sint (WIFEXITED (exit_status out))),
      LInt (sint (WEXITSTATUS (exit_status out)))]"

text \<open>\<open>create_ssh_key\<close>; a NULL \<open>comment\<close> or \<open>passphrase\<close> is \<open>None\<close>.\<close>

definition create_ssh_key ::
  "env \<Rightarrow> string option \<Rightarrow> string option \<Rightarrow> path \<Rightarrow> world \<Rightarrow> int \<times> world" where
  \<open>create_ssh_key e comment passphrase privpath w =
     (case comment of
        None \<Rightarrow> (-1, g_debug ''%s: comment must be set'' [LStr ''create_ssh_key''] w)
      | Some cmt \<Rightarrow>
        if cmt = [] then (-1, g_debug ''%s: comment must be set'' [LStr ''create_ssh_key''] w)
        else
          (case passphrase of
             None \<Rightarrow>
               (-1, g_debug ''%s: password must be longer than 4 characters''
                      [LStr ''create_ssh_key''] w)
           | Some pass \<Rightarrow>
             if length pass < 5 then
               (-1, g_debug ''%s: password must be longer than 4 characters''
                      [LStr ''create_ssh_key''] w)
             else
               let dir = g_path_get_dirname privpath;
                   (rc, w1) = g_mkdir_with_parents e dir w
               in if rc \<noteq> 0 then
                    (-1, g_debug ''%s: failed to access %s'' [LStr ''create_ssh_key'', LStr dir] w1)
                  else
                    let command = concat [''ssh-keygen -t rsa -f '', privpath, '' -C "'', cmt,
                                          ''" -P "'', pass, ''"''];
                        w2 = g_debug ''command: ssh-keygen -t rsa -f %s -C "%s" -P "********"''
                               [LStr privpath, LStr cmt] w1;
                        (out, w3) = g_spawn_command_line_sync e command w2
                    in if invocation_failed out then
                         let w4 = (case err_message out of
                                     Some m \<Rightarrow>
                                       g_debug ''%s: failed to create private key: %s\<newline>''
                                         [LStr ''create_ssh_key'', LStr m] w3
                                   | None \<Rightarrow>
                                       g_debug ''%s: failed to create private key\<newline>''
                                         [LStr ''create_ssh_key''] w3);
                             w5 = g_debug ''%s: key-gen failed with %d (WIF %i, WEX %i).\<newline>''
                                    (LStr ''create_ssh_key'' # wait_args out) w4;
                             w6 = g_debug ''%s: stdout: %s''
                                    [LStr ''create_ssh_key'', log_opt (standard_out out)] w5;
                             w7 = g_debug ''%s: stderr: %s''
                                    [LStr ''create_ssh_key'', log_opt (standard_err out)] w6
                         in (-1, w7)
                       else (0, w3)))\<close>

text \<open>\<open>lsc_user_keys_create\<close>: the return value and \<open>*private_key\<close> (\<open>None\<close> when
  nothing was stored). The \<open>length\<close> that \<open>g_file_get_contents\<close> reports is a local
  variable that is dropped, so the key reaches the caller as a C string.\<close>

definition lsc_user_keys_create ::
  "env \<Rightarrow> string option \<Rightarrow> world \<Rightarrow> int \<times> string option \<times> world" where
  "lsc_user_keys_create e password w =
     (case mkdtemp e ''/tmp/openvas_key_XXXXXX'' w of
        (None, w1) \<Rightarrow> (-1, None, w1)
      | (Some key_dir, w1) \<Rightarrow>
          let key_path = g_build_filename [key_dir, ''key''];
              (rc, w2) = create_ssh_key e (Some ''Key generated by GVM'') password key_path w1;
              (ret, private_key, w3) =
                (if rc \<noteq> 0 then (-1, None, w2)
                 else (case g_file_get_contents e key_path w2 of
                         (None, w') \<Rightarrow> (-1, None, w')
                       | (Some k, w') \<Rightarrow> (0, Some (c_string k), w')));
              \<comment> \<open>free_exit:\<close>
              (r, w4) = gvm_file_remove_recurse e key_dir w3
          in (ret, private_key, w4))"

subsection \<open>RPM package generation\<close>

definition lsc_user_rpm_create :: "env \<Rightarrow> string \<Rightarrow> path \<Rightarrow> path \<Rightarrow> world \<Rightarrow> bool \<times> world" where
  \<open>lsc_user_rpm_create e username public_key_path to_filename w =
     (let w0 = g_debug ''%s: create temporary directory'' [LStr ''lsc_user_rpm_create''] w in
      case mkdtemp e ''/tmp/lsc_user_rpm_create_XXXXXX'' w0 of
        (None, w1) \<Rightarrow> (False, w1)
      | (Some tmpdir, w1) \<Rightarrow>
          let w2 = g_debug ''%s: temporary directory: %s\<newline>''
                     [LStr ''lsc_user_rpm_create'', LStr tmpdir] w1;
              w3 = g_debug ''%s: copy key to temporary directory\<newline>''
                     [LStr ''lsc_user_rpm_create''] w2;
              pubkey_basename = c_format ''%s.pub'' [username];
              new_pubkey_filename = g_build_filename [tmpdir, pubkey_basename];
              (copied, w4) = gvm_file_copy e public_key_path new_pubkey_filename w3
          in if copied = False then
               (False, g_debug ''%s: failed to copy key file %s to %s''
                         [LStr ''lsc_user_rpm_create'', LStr public_key_path,
                          LStr new_pubkey_filename] w4)
             else
               let w5 = g_debug ''%s: Attempting RPM build\<newline>'' [LStr ''lsc_user_rpm_create''] w4;
                   cmd = [g_build_filename [GVM_DATA_DIR e, ''gvm-lsc-rpm-creator.sh''],
                          username, new_pubkey_filename, tmpdir, to_filename];
                   w6 = g_debug ''%s: Spawning in %s: %s %s %s %s %s\<newline>''
                          (LStr ''lsc_user_rpm_create'' # LStr tmpdir # map LStr cmd) w5;
                   (out, w7) = g_spawn_sync e tmpdir cmd w6;
                   (success, w8) =
                     (if invocation_failed out then
                        (False,
                         g_debug ''%s: stderr: %s\<newline>''
                           [LStr ''lsc_user_rpm_create'', log_opt (standard_err out)]
                           (g_debug ''%s: stdout: %s\<newline>''
                              [LStr ''lsc_user_rpm_create'', log_opt (standard_out out)]
                              (g_debug ''%s: failed to create the rpm: %d (WIF %i, WEX %i)''
                                 (LStr ''lsc_user_rpm_create'' # wait_args out) w7)))
                      else (True, w7));
                   (rc, w9) = gvm_file_remove_recurse e tmpdir w8
               in if rc \<noteq> 0 \<and> success = True then
                    (False, g_debug ''%s: failed to remove temporary directory %s''
                              [LStr ''lsc_user_rpm_create'', LStr tmpdir] w9)
                  else (success, w9))\<close>

text \<open>\<open>lsc_user_rpm_recreate\<close>: the return value and \<open>*rpm\<close> (\<open>*rpm_size\<close> is its
  length).\<close>

definition lsc_user_rpm_recreate ::
  "env \<Rightarrow> string \<Rightarrow> string \<Rightarrow> world \<Rightarrow> int \<times> string option \<times> world" where
  "lsc_user_rpm_recreate e name public_key w =
     (case mkdtemp e ''/tmp/key_XXXXXX'' w of
        (None, w1) \<Rightarrow> (-1, None, w1)
      | (Some key_dir, w1) \<Rightarrow>
          let public_key_path = g_build_filename [key_dir, ''key.pub''];
              (written, w2) = g_file_set_contents e public_key_path public_key w1;
              (ret, rpm, w7) =
                (if \<not> written then (-1, None, w2)
                 else (case mkdtemp e ''/tmp/rpm_XXXXXX'' w2 of
                         (None, w3) \<Rightarrow> (-1, None, w3)
                       | (Some rpm_dir, w3) \<Rightarrow>
                           let rpm_path = g_build_filename [rpm_dir, ''p.rpm''];
                               w4 = g_debug ''%s: rpm_path: %s''
                                      [LStr ''lsc_user_rpm_recreate'', LStr rpm_path] w3;
                               (built, w5) =
                                 lsc_user_rpm_create e name public_key_path rpm_path w4;
                               (ret, rpm, w6) =
                                 (if built = False then (-1, None, w5)
                                  else (case g_file_get_contents e rpm_path w5 of
                                          (None, w') \<Rightarrow> (-1, None, w')
                                        | (Some c, w') \<Rightarrow> (0, Some c, w')));
                               \<comment> \<open>rm_exit:\<close>
                               (r, w7) = gvm_file_remove_recurse e rpm_dir w6
                           in (ret, rpm, w7)));
              \<comment> \<open>free_exit:\<close>
              (r, w8) = gvm_file_remove_recurse e key_dir w7
          in (ret, rpm, w8))"

subsection \<open>Deb generation\<close>

definition lsc_user_deb_create ::
  "env \<Rightarrow> string \<Rightarrow> path \<Rightarrow> path \<Rightarrow> string \<Rightarrow> world \<Rightarrow> bool \<times> world" where
  \<open>lsc_user_deb_create e username public_key_path to_filename maintainer w =
     (let w0 = g_debug ''%s: create temporary directory'' [LStr ''lsc_user_deb_create''] w in
      case mkdtemp e ''/tmp/lsc_user_deb_create_XXXXXX'' w0 of
        (None, w1) \<Rightarrow> (False, w1)
      | (Some tmpdir, w1) \<Rightarrow>
          let w2 = g_debug ''%s: temporary directory: %s\<newline>''
                     [LStr ''lsc_user_deb_create'', LStr tmpdir] w1;
              w3 = g_debug ''%s: copy key to temporary directory\<newline>''
                     [LStr ''lsc_user_deb_create''] w2;
              pubkey_basename = c_format ''%s.pub'' [username];
              new_pubkey_filename = g_build_filename [tmpdir, pubkey_basename];
              (copied, w4) = gvm_file_copy e public_key_path new_pubkey_filename w3
          in if copied = False then
               (False, g_debug ''%s: failed to copy key file %s to %s''
                         [LStr ''lsc_user_deb_create'', LStr public_key_path,
                          LStr new_pubkey_filename] w4)
             else
               let w5 = g_debug ''%s: Attempting DEB build\<newline>'' [LStr ''lsc_user_deb_create''] w4;
                   cmd = [g_build_filename [GVM_DATA_DIR e, ''gvm-lsc-deb-creator.sh''],
                          username, new_pubkey_filename, tmpdir, to_filename, maintainer];
                   w6 = g_debug ''%s: Spawning in %s: %s %s %s %s %s %s\<newline>''
                          (LStr ''lsc_user_deb_create'' # LStr tmpdir # map LStr cmd) w5;
                   (out, w7) = g_spawn_sync e tmpdir cmd w6;
                   (success, w8) =
                     (if invocation_failed out then
                        (False,
                         g_debug ''%s: stderr: %s\<newline>''
                           [LStr ''lsc_user_deb_create'', log_opt (standard_err out)]
                           (g_debug ''%s: stdout: %s\<newline>''
                              [LStr ''lsc_user_deb_create'', log_opt (standard_out out)]
                              (g_debug ''%s: failed to create the deb: %d (WIF %i, WEX %i)''
                                 (LStr ''lsc_user_deb_create'' # wait_args out) w7)))
                      else (True, w7));
                   (rc, w9) = gvm_file_remove_recurse e tmpdir w8
               in if rc \<noteq> 0 \<and> success = True then
                    (False, g_debug ''%s: failed to remove temporary directory %s''
                              [LStr ''lsc_user_deb_create'', LStr tmpdir] w9)
                  else (success, w9))\<close>

text \<open>\<open>lsc_user_deb_recreate\<close>: the return value and \<open>*deb\<close>.\<close>

definition lsc_user_deb_recreate ::
  "env \<Rightarrow> string \<Rightarrow> string \<Rightarrow> string \<Rightarrow> world \<Rightarrow> int \<times> string option \<times> world" where
  "lsc_user_deb_recreate e name public_key maintainer w =
     (case mkdtemp e ''/tmp/key_XXXXXX'' w of
        (None, w1) \<Rightarrow> (-1, None, w1)
      | (Some key_dir, w1) \<Rightarrow>
          let public_key_path = g_build_filename [key_dir, ''key.pub''];
              (written, w2) = g_file_set_contents e public_key_path public_key w1;
              (ret, deb, w7) =
                (if \<not> written then (-1, None, w2)
                 else (case mkdtemp e ''/tmp/deb_XXXXXX'' w2 of
                         (None, w3) \<Rightarrow> (-1, None, w3)
                       | (Some deb_dir, w3) \<Rightarrow>
                           let deb_path = g_build_filename [deb_dir, ''p.deb''];
                               w4 = g_debug ''%s: deb_path: %s''
                                      [LStr ''lsc_user_deb_recreate'', LStr deb_path] w3;
                               (built, w5) =
                                 lsc_user_deb_create e name public_key_path deb_path maintainer w4;
                               (ret, deb, w6) =
                                 (if built = False then (-1, None, w5)
                                  else (case g_file_get_contents e deb_path w5 of
                                          (None, w') \<Rightarrow> (-1, None, w')
                                        | (Some c, w') \<Rightarrow> (0, Some c, w')));
                               \<comment> \<open>rm_exit:\<close>
                               (r, w7) = gvm_file_remove_recurse e deb_dir w6
                           in (ret, deb, w7)));
              \<comment> \<open>free_exit:\<close>
              (r, w8) = gvm_file_remove_recurse e key_dir w7
          in (ret, deb, w8))"

subsection \<open>Exe generation\<close>

definition BSL :: char where
  "BSL = CHR 0x5C"

text \<open>The variable an \<open>fprintf\<close> argument of \<open>create_nsis_script\<close> names.\<close>

datatype nsis_arg = Arg_package_name | Arg_user_name | Arg_password

fun arg_value :: "string \<Rightarrow> string \<Rightarrow> string \<Rightarrow> nsis_arg \<Rightarrow> string" where
  "arg_value package_name user_name password Arg_package_name = package_name"
| "arg_value package_name user_name password Arg_user_name = user_name"
| "arg_value package_name user_name password Arg_password = password"

text \<open>The \<open>fprintf (fd, ...)\<close> calls of \<open>create_nsis_script\<close>, in order: the format
  and the arguments of each (\<open>BSL\<close> is the backslash character).\<close>

definition nsis_fprintf_calls :: "(string \<times> nsis_arg list) list" where
  \<open>nsis_fprintf_calls =
     [(''#Installer filename\<newline>'', []),
      (''outfile '', []),
      (''%s'', [Arg_package_name]),
      (''\<newline>\<newline>'', []),
      (''# Set desktop as install directory\<newline>'', []),
      (''installDir $DESKTOP\<newline>\<newline>'', []),
      (''# Put some text\<newline>'', []),
      (''BrandingText "GVM Local Security Checks User"\<newline>\<newline>'', []),
      (''#\<newline># Default (installer) section.\<newline>#\<newline>'', []),
      (''section\<newline>\<newline>'', []),
      (''# Define output path\<newline>'', []),
      (''setOutPath $INSTDIR\<newline>\<newline>'', []),
      (''# Uninstaller name\<newline>'', []),
      (''writeUninstaller $INSTDIR'' @ [BSL] @ ''openvas_lsc_remove_%s.exe\<newline>\<newline>'', [Arg_user_name]),
      (''# Create Thomas Rotters GetAdminGroupName.vb script\<newline>'', []),
      (''ExecWait "cmd /C Echo Set objWMIService = GetObject($'' @ [BSL] @ ''"winmgmts:'' @ [BSL, BSL] @ ''.'' @ [BSL] @ ''root'' @ [BSL] @ ''cimv2$'' @ [BSL] @ ''") > $'' @ [BSL] @ ''"%%temp%%'' @ [BSL] @ ''GetAdminGroupName.vbs$'' @ [BSL] @ ''" "\<newline>'', []),
      (''ExecWait "cmd /C Echo Set colAccounts = objWMIService.ExecQuery ($'' @ [BSL] @ ''"Select * From Win32_Group Where SID = '' @ [CHR 0x27] @ ''S-1-5-32-544'' @ [CHR 0x27] @ ''$'' @ [BSL] @ ''")  >> $'' @ [BSL] @ ''"%%temp%%'' @ [BSL] @ ''GetAdminGroupName.vbs$'' @ [BSL] @ ''""\<newline>'', []),
      (''ExecWait "cmd /C Echo For Each objAccount in colAccounts >> $'' @ [BSL] @ ''"%%temp%%'' @ [BSL] @ ''GetAdminGroupName.vbs$'' @ [BSL] @ ''""\<newline>'', []),
      (''ExecWait "cmd /C Echo Wscript.Echo objAccount.Name >> $'' @ [BSL] @ ''"%%temp%%'' @ [BSL] @ ''GetAdminGroupName.vbs$'' @ [BSL] @ ''""\<newline>'', []),
      (''ExecWait "cmd /C Echo Next >> $'' @ [BSL] @ ''"%%temp%%'' @ [BSL] @ ''GetAdminGroupName.vbs$'' @ [BSL] @ ''""\<newline>'', []),
      (''ExecWait "cmd /C cscript //nologo $'' @ [BSL] @ ''"%%temp%%'' @ [BSL] @ ''GetAdminGroupName.vbs$'' @ [BSL] @ ''" > $'' @ [BSL] @ ''"%%temp%%'' @ [BSL] @ ''AdminGroupName.txt$'' @ [BSL] @ ''""\<newline>\<newline>'', []),
      (''# Create batch script that installs the user\<newline>'', []),
      (''ExecWait "cmd /C Echo Set /P AdminGroupName= ^<$'' @ [BSL] @ ''"%%temp%%'' @ [BSL] @ ''AdminGroupName.txt$'' @ [BSL] @ ''" > $'' @ [BSL] @ ''"%%temp%%'' @ [BSL] @ ''AddUser.bat$'' @ [BSL] @ ''"" \<newline>'', []),
      (''ExecWait "cmd /C Echo net user %s %s /add /active:yes >> $'' @ [BSL] @ ''"%%temp%%'' @ [BSL] @ ''AddUser.bat$'' @ [BSL] @ ''""\<newline>'', [Arg_user_name, Arg_password]),
      (''ExecWait "cmd /C Echo net localgroup %%AdminGroupName%% %%COMPUTERNAME%%'' @ [BSL] @ ''%s /add >> $'' @ [BSL] @ ''"%%temp%%'' @ [BSL] @ ''AddUser.bat$'' @ [BSL] @ ''""\<newline>\<newline>'', [Arg_user_name]),
      (''# Execute AddUser script\<newline>'', []),
      (''ExecWait "cmd /C $'' @ [BSL] @ ''"%%temp%%'' @ [BSL] @ ''AddUser.bat$'' @ [BSL] @ ''""\<newline>\<newline>'', []),
      (''# Remove temporary files for localized admin group names\<newline>'', []),
      (''ExecWait "del $'' @ [BSL] @ ''"%%temp%%'' @ [BSL] @ ''AdminGroupName.txt$'' @ [BSL] @ ''""\<newline>'', []),
      (''ExecWait "del $'' @ [BSL] @ ''"%%temp%%'' @ [BSL] @ ''GetAdminGroupName.vbs$'' @ [BSL] @ ''""\<newline>\<newline>'', []),
      (''ExecWait "del $'' @ [BSL] @ ''"%%temp%%'' @ [BSL] @ ''AddUser.bat$'' @ [BSL] @ ''""\<newline>\<newline>'', []),
      (''# Display message that everything seems to be fine\<newline>'', []),
      (''messageBox MB_OK "A user has been added. An uninstaller is placed on your Desktop."\<newline>\<newline>'', []),
      (''# Default (install) section end\<newline>'', []),
      (''sectionEnd\<newline>\<newline>'', []),
      (''#\<newline># Uninstaller section.\<newline>#\<newline>'', []),
      (''section "Uninstall"\<newline>\<newline>'', []),
      (''# Run cmd to remove user\<newline>'', []),
      (''ExecWait "net user %s /delete"\<newline>\<newline>'', [Arg_user_name]),
      (''# Unistaller should remove itself (from desktop/installdir)\<newline>\<newline>'', []),
      (''# Display message that everything seems to be fine\<newline>'', []),
      (''messageBox MB_OK "A user has been removed. You can now safely remove the uninstaller from your Desktop."\<newline>\<newline>'', []),
      (''# Uninstaller section end\<newline>'', []),
      (''sectionEnd\<newline>\<newline>'', [])]\<close>

definition create_nsis_script ::
  "env \<Rightarrow> path \<Rightarrow> string \<Rightarrow> string \<Rightarrow> string \<Rightarrow> world \<Rightarrow> int \<times> world" where
  "create_nsis_script e script_name package_name user_name password w =
     (case fopen_w e script_name w of
        (None, w1) \<Rightarrow> (-1, w1)
      | (Some fd, w1) \<Rightarrow>
          let w2 = fold (\<lambda>(fmt, args).
                           fprintf fd fmt (map (arg_value package_name user_name password) args))
                     nsis_fprintf_calls w1;
              (rc, w3) = fclose e fd w2
          in if rc \<noteq> 0 then (-1, w3) else (0, w3))"

definition execute_makensis :: "env \<Rightarrow> path \<Rightarrow> world \<Rightarrow> int \<times> world" where
  \<open>execute_makensis e nsis_script w =
     (let dirname = g_path_get_dirname nsis_script;
          cmd = [''makensis'', nsis_script];
          w1 = g_debug ''--- executing makensis.\<newline>'' [] w;
          w2 = g_debug ''%s: Spawning in %s: %s %s\<newline>''
                 (LStr ''execute_makensis'' # LStr dirname # map LStr cmd) w1;
          (out, w3) = g_spawn_sync e dirname cmd w2
      in if invocation_failed out then
           (-1,
            g_debug ''%s: stderr: %s\<newline>''
              [LStr ''execute_makensis'', log_opt (standard_err out)]
              (g_debug ''%s: stdout: %s\<newline>''
                 [LStr ''execute_makensis'', log_opt (standard_out out)]
                 (g_debug ''%s: failed to create the exe: %d (WIF %i, WEX %i)''
                    (LStr ''execute_makensis'' # wait_args out) w3)))
         else (0, w3))\<close>

definition lsc_user_exe_create :: "env \<Rightarrow> string \<Rightarrow> string \<Rightarrow> path \<Rightarrow> world \<Rightarrow> int \<times> world" where
  \<open>lsc_user_exe_create e user_name password to_filename w =
     (let dirname = g_path_get_dirname to_filename;
          nsis_script = g_build_filename [dirname, ''p.nsis''];
          (rc, w1) = create_nsis_script e nsis_script to_filename user_name password w
      in if rc \<noteq> 0 then
           (-1, g_warning ''%s: Failed to create NSIS script\<newline>'' [LStr ''lsc_user_exe_create''] w1)
         else
           let (rc', w2) = execute_makensis e nsis_script w1
           in if rc' \<noteq> 0 then
                (-1, g_warning ''%s: Failed to execute makensis\<newline>''
                       [LStr ''lsc_user_exe_create''] w2)
              else (0, w2))\<close>

text \<open>\<open>lsc_user_exe_recreate\<close>: the return value and \<open>*exe\<close>.\<close>

definition lsc_user_exe_recreate ::
  "env \<Rightarrow> string \<Rightarrow> string \<Rightarrow> world \<Rightarrow> int \<times> string option \<times> world" where
  "lsc_user_exe_recreate e name password w =
     (case mkdtemp e ''/tmp/exe_XXXXXX'' w of
        (None, w1) \<Rightarrow> (-1, None, w1)
      | (Some exe_dir, w1) \<Rightarrow>
          let exe_path = g_build_filename [exe_dir, ''p.nsis''];
              (rc, w2) = lsc_user_exe_create e name password exe_path w1;
              (ret, exe, w3) =
                (if rc \<noteq> 0 then (-1, None, w2)
                 else (case g_file_get_contents e exe_path w2 of
                         (None, w') \<Rightarrow> (-1, None, w')
                       | (Some c, w') \<Rightarrow> (0, Some c, w')));
              \<comment> \<open>rm_exit:\<close>
              (r, w4) = gvm_file_remove_recurse e exe_dir w3
          in (ret, exe, w4))"

subsection \<open>Notions used to state the properties\<close>

text \<open>The calls a function added to the trace.\<close>

definition new_events :: "world \<Rightarrow> world \<Rightarrow> event list" where
  "new_events w w' = drop (length (trace w)) (trace w')"

fun is_spawn :: "event \<Rightarrow> bool" where
  "is_spawn (ESpawn wd argv out) = True"
| "is_spawn (ESpawnCommandLine c out) = True"
| "is_spawn ev = False"

fun is_log :: "event \<Rightarrow> bool" where
  "is_log (EDebug fmt args) = True"
| "is_log (EWarning fmt args) = True"
| "is_log ev = False"

fun is_load :: "event \<Rightarrow> bool" where
  "is_load (EGetContents p c) = True"
| "is_load ev = False"

fun outcome_of :: "event \<Rightarrow> outcome list" where
  "outcome_of (ESpawn wd argv out) = [out]"
| "outcome_of (ESpawnCommandLine c out) = [out]"
| "outcome_of ev = []"

text \<open>The exit outcome of an invocation in the words of the specification: the child
  could not be spawned, it ended abnormally (the low seven bits of the wait status name
  a signal), or it exited with the code held in bits 8 to 15.\<close>

datatype exit_outcome = Exited nat | SignaledOrAbnormal | SpawnFailed

definition classify :: "outcome \<Rightarrow> exit_outcome" where
  "classify out =
     (if \<not> spawned out then SpawnFailed
      else if take_bit 7 (exit_status out) \<noteq> 0 then SignaledOrAbnormal
      else Exited (unat (take_bit 8 (drop_bit 8 (exit_status out)))))"

text \<open>A template: literal text interleaved with substitution points.\<close>

datatype piece = Lit string | Slot nsis_arg

fun instantiate :: "piece list \<Rightarrow> (nsis_arg \<Rightarrow> string) \<Rightarrow> string" where
  "instantiate [] val = []"
| "instantiate (Lit s # t) val = s @ instantiate t val"
| "instantiate (Slot a # t) val = val a @ instantiate t val"

definition slots :: "piece list \<Rightarrow> nsis_arg \<Rightarrow> nat" where
  "slots t a = length (filter (\<lambda>p. p = Slot a) t)"

text \<open>The template of one \<open>fprintf\<close> call, read off its format as \<open>c_format\<close> reads
  it.\<close>

fun format_template :: "string \<Rightarrow> nsis_arg list \<Rightarrow> piece list" where
  "format_template [] args = []"
| "format_template [c] args = [Lit [c]]"
| "format_template (c # d # fmt) args =
     (if c = CHR ''%'' \<and> d = CHR ''%'' then Lit ''%'' # format_template fmt args
      else if c = CHR ''%'' \<and> d = CHR ''s'' then
        (case args of [] \<Rightarrow> format_template fmt [] | a # args' \<Rightarrow> Slot a # format_template fmt args')
      else Lit [c] # format_template (d # fmt) args)"

definition nsis_template :: "piece list" where
  "nsis_template = concat (map (\<lambda>(fmt, args). format_template fmt args) nsis_fprintf_calls)"

text \<open>What the sequence of \<open>fprintf\<close> calls writes.\<close>

definition nsis_script_text :: "string \<Rightarrow> string \<Rightarrow> string \<Rightarrow> string" where
  "nsis_script_text package_name user_name password =
     concat (map (\<lambda>(fmt, args). c_format fmt (map (arg_value package_name user_name password) args))
               nsis_fprintf_calls)"


text \<open>The command line \<open>create_ssh_key\<close> builds, the line it logs for it, and what it
  logs when the invocation failed.\<close>

definition ssh_keygen_command :: "path \<Rightarrow> string \<Rightarrow> string \<Rightarrow> string" where
  \<open>ssh_keygen_command privpath cmt pass =
     ''ssh-keygen -t rsa -f '' @ privpath @ '' -C "'' @ cmt @ ''" -P "'' @ pass @ ''"''\<close>

definition command_log :: "path \<Rightarrow> string \<Rightarrow> event" where
  \<open>command_log privpath cmt =
     EDebug ''command: ssh-keygen -t rsa -f %s -C "%s" -P "********"'' [LStr privpath, LStr cmt]\<close>

definition key_failure_log :: "outcome \<Rightarrow> event list" where
  \<open>key_failure_log out =
     [(case err_message out of
         Some m \<Rightarrow> EDebug ''%s: failed to create private key: %s\<newline>'' [LStr ''create_ssh_key'', LStr m]
       | None \<Rightarrow> EDebug ''%s: failed to create private key\<newline>'' [LStr ''create_ssh_key'']),
      EDebug ''%s: key-gen failed with %d (WIF %i, WEX %i).\<newline>'' (LStr ''create_ssh_key'' # wait_args out),
      EDebug ''%s: stdout: %s'' [LStr ''create_ssh_key'', log_opt (standard_out out)],
      EDebug ''%s: stderr: %s'' [LStr ''create_ssh_key'', log_opt (standard_err out)]]\<close>

text \<open>The state in which \<open>create_ssh_key\<close> spawns, and the outcome it gets there.\<close>

definition key_spawn_state :: "env \<Rightarrow> path \<Rightarrow> string \<Rightarrow> world \<Rightarrow> world" where
  "key_spawn_state e privpath cmt w =
     record_event (command_log privpath cmt) (snd (g_mkdir_with_parents e (g_path_get_dirname privpath) w))"

definition key_spawn_outcome :: "env \<Rightarrow> path \<Rightarrow> string \<Rightarrow> string \<Rightarrow> world \<Rightarrow> outcome" where
  "key_spawn_outcome e privpath cmt pass w =
     fst (run_command_line e (ssh_keygen_command privpath cmt pass) (key_spawn_state e privpath cmt w))"

text \<open>Where \<open>lsc_user_exe_create\<close> puts the script for a destination.\<close>

definition nsis_script_path :: "path \<Rightarrow> path" where
  "nsis_script_path to_filename = g_build_filename [g_path_get_dirname to_filename, ''p.nsis'']"

text \<open>The events that create a workspace or try to destroy one.\<close>

fun is_workspace_event :: "event \<Rightarrow> bool" where
  "is_workspace_event (EMkdtemp d) = True"
| "is_workspace_event (ERemoveRecurse d) = True"
| "is_workspace_event ev = False"

text \<open>Within a list of events, the directory \<open>d\<close> is created once, and
  \<open>gvm_file_remove_recurse\<close> is called on it once, after its creation.\<close>

definition released_in :: "path \<Rightarrow> event list \<Rightarrow> bool" where
  "released_in d evs =
     (\<exists>pre mid post. evs = pre @ EMkdtemp d # mid @ ERemoveRecurse d # post \<and>
        EMkdtemp d \<notin> set (pre @ mid @ post) \<and> ERemoveRecurse d \<notin> set (pre @ mid @ post))"

definition no_remove_fault :: "env \<Rightarrow> bool" where
  "no_remove_fault e = (\<forall>p w. \<not> io_fault e (IoRemove p) w)"







subsection \<open>Concrete surroundings\<close>

text \<open>A file system holding only \<open>/tmp\<close>, and surroundings without I/O faults in which
  \<open>mkdtemp\<close> picks the suffix \<open>aaaaaa\<close>.\<close>

definition initial_world :: world where
  "initial_world = \<lparr>files = Map.empty, dirs = {''/tmp''}, trace = []\<rparr>"

definition exited_zero :: outcome where
  "exited_zero = \<lparr>spawned = True, exit_status = 0, standard_out = Some [],
                   standard_err = Some [], err_message = None\<rparr>"

text \<open>The same file system once \<open>mkdtemp\<close> has made \<open>/tmp/exe_aaaaaa\<close>.\<close>

definition exe_world :: world where
  "exe_world = \<lparr>files = Map.empty, dirs = {''/tmp'', ''/tmp/exe_aaaaaa''}, trace = []\<rparr>"

text \<open>Every tool exits with code 0 and writes nothing.\<close>

definition idle_env :: env where
  "idle_env = \<lparr>GVM_DATA_DIR = ''/usr/share/gvm'',
                mkdtemp_suffix = (\<lambda>template w. Some ''aaaaaa''),
                io_fault = (\<lambda>call w. False),
                run_argv = (\<lambda>wd argv w. (exited_zero, w)),
                run_command_line = (\<lambda>c w. (exited_zero, w))\<rparr>"

text \<open>Surroundings in which every removal fails.\<close>

definition stuck_env :: env where
  "stuck_env = idle_env\<lparr>io_fault := (\<lambda>call w. case call of IoRemove p \<Rightarrow> True | _ \<Rightarrow> False)\<rparr>"


text \<open>An ssh-keygen stand-in that leaves \<open>bytes\<close> in the key file of the workspace
  \<open>/tmp/openvas_key_aaaaaa\<close> and exits with code 0.\<close>

definition keygen_env :: "string \<Rightarrow> env" where
  "keygen_env bytes =
     idle_env\<lparr>run_command_line := (\<lambda>c w.
        (exited_zero, w\<lparr>files := (files w)(''/tmp/openvas_key_aaaaaa/key'' \<mapsto> bytes)\<rparr>))\<rparr>"

text \<open>A command-line spawn that reports an unbalanced double quote the way GLib's shell
  parser does, quoting the command line in the error message.\<close>

definition quoting_env :: env where
  \<open>quoting_env =
     idle_env\<lparr>run_command_line := (\<lambda>c w.
        if odd (length (filter (\<lambda>x. x = CHR 0x22) c)) then
          (\<lparr>spawned = False, exit_status = 0, standard_out = None, standard_err = None,
            err_message = Some (''Text ended before matching quote was found for ". (The text was '' @ c @ '')'')\<rparr>, w)
        else (exited_zero, w))\<rparr>\<close>

text \<open>A file system that also holds a public key file, and a packaging tool that
  exits with code 0 after writing to both of its output streams.\<close>

definition keyed_world :: world where
  "keyed_world = \<lparr>files = [''/tmp/key.pub'' \<mapsto> ''key''], dirs = {''/tmp''}, trace = []\<rparr>"

definition chatty_zero :: outcome where
  "chatty_zero = \<lparr>spawned = True, exit_status = 0, standard_out = Some ''error: nothing built'',
                   standard_err = Some ''fatal'', err_message = None\<rparr>"

definition chatty_env :: env where
  "chatty_env = idle_env\<lparr>run_argv := (\<lambda>wd argv w. (chatty_zero, w))\<rparr>"

section \<open>Basic facts about the library calls\<close>

lemma record_event_simps [simp]:
  "trace (record_event ev w) = trace w @ [ev]"
  "files (record_event ev w) = files w"
  "dirs (record_event ev w) = dirs w"
  by (simp_all add: record_event_def)

lemma g_debug_simps [simp]:
  "trace (g_debug fmt args w) = trace w @ [EDebug fmt args]"
  "files (g_debug fmt args w) = files w"
  "dirs (g_debug fmt args w) = dirs w"
  by (simp_all add: g_debug_def)

lemma g_warning_simps [simp]:
  "trace (g_warning fmt args w) = trace w @ [EWarning fmt args]"
  "files (g_warning fmt args w) = files w"
  "dirs (g_warning fmt args w) = dirs w"
  by (simp_all add: g_warning_def)

lemma fprintf_simps [simp]:
  "trace (fprintf fd fmt args w) = trace w"
  "dirs (fprintf fd fmt args w) = dirs w"
  "files (fprintf fd fmt args w) =
     (files w)(fd \<mapsto> (case files w fd of None \<Rightarrow> [] | Some s \<Rightarrow> s) @ c_format fmt args)"
  by (simp_all add: fprintf_def)

lemma new_events_append [simp]:
  "trace w' = trace w @ evs \<Longrightarrow> new_events w w' = evs"
  by (simp add: new_events_def)

lemma new_events_self [simp]: "new_events w w = []"
  by (simp add: new_events_def)

lemma mkdtemp_trace:
  "mkdtemp e t w = (r, w') \<Longrightarrow>
   trace w' = trace w @ (case r of None \<Rightarrow> [] | Some d \<Rightarrow> [EMkdtemp d])"
  by (auto simp: mkdtemp_def Let_def split: option.splits if_splits)

lemma mkdtemp_None: "mkdtemp e t w = (None, w') \<Longrightarrow> w' = w"
  by (auto simp: mkdtemp_def Let_def split: option.splits if_splits)

lemma mkdtemp_Some:
  "mkdtemp e t w = (Some d, w') \<Longrightarrow>
   d \<notin> dirs w \<and> files w d = None \<and> w' = record_event (EMkdtemp d) (w\<lparr>dirs := insert d (dirs w)\<rparr>)"
  by (auto simp: mkdtemp_def Let_def split: option.splits if_splits)

lemma g_mkdir_with_parents_trace:
  "g_mkdir_with_parents e d w = (r, w') \<Longrightarrow> trace w' = trace w @ [EMkdirWithParents d]"
  by (auto simp: g_mkdir_with_parents_def Let_def split: if_splits)

lemma gvm_file_remove_recurse_trace:
  "gvm_file_remove_recurse e d w = (r, w') \<Longrightarrow> trace w' = trace w @ [ERemoveRecurse d]"
  by (auto simp: gvm_file_remove_recurse_def Let_def split: if_splits)

lemma gvm_file_remove_recurse_gone:
  "gvm_file_remove_recurse e d w = (0, w') \<Longrightarrow> d \<notin> dirs w' \<and> files w' d = None"
  by (auto simp: gvm_file_remove_recurse_def Let_def under_def split: if_splits)

lemma gvm_file_remove_recurse_failed:
  "gvm_file_remove_recurse e d w = (r, w') \<Longrightarrow>
   (r = 0 \<or> r = -1) \<and> (r \<noteq> 0 \<longrightarrow> dirs w' = dirs w \<and> files w' = files w)"
  by (auto simp: gvm_file_remove_recurse_def Let_def split: if_splits)

lemma gvm_file_copy_trace:
  "gvm_file_copy e src dst w = (r, w') \<Longrightarrow> trace w' = trace w @ [ECopy src dst]"
  by (auto simp: gvm_file_copy_def Let_def split: option.splits if_splits)

lemma g_file_set_contents_trace:
  "g_file_set_contents e p c w = (r, w') \<Longrightarrow> trace w' = trace w @ [ESetContents p]"
  by (auto simp: g_file_set_contents_def Let_def split: if_splits)

lemma g_spawn_command_line_sync_trace:
  "g_spawn_command_line_sync e c w = (out, w') \<Longrightarrow>
   trace w' = trace w @ [ESpawnCommandLine c out]"
  by (auto simp: g_spawn_command_line_sync_def Let_def split: prod.splits)

lemma g_spawn_sync_trace:
  "g_spawn_sync e wd argv w = (out, w') \<Longrightarrow> trace w' = trace w @ [ESpawn wd argv out]"
  by (auto simp: g_spawn_sync_def Let_def split: prod.splits)

lemma g_file_get_contents_trace:
  "g_file_get_contents e p w = (r, w') \<Longrightarrow> trace w' = trace w @ [EGetContents p r]"
  by (auto simp: g_file_get_contents_def Let_def split: if_splits)

lemma fopen_w_trace:
  "fopen_w e p w = (r, w') \<Longrightarrow> trace w' = trace w @ [EFopen p]"
  by (auto simp: fopen_w_def Let_def split: if_splits)

lemma fopen_w_Some:
  "fopen_w e p w = (Some fd, w') \<Longrightarrow> fd = p \<and> files w' = (files w)(p \<mapsto> []) \<and> dirs w' = dirs w"
  by (auto simp: fopen_w_def Let_def split: if_splits)

lemma fclose_trace:
  "fclose e fd w = (r, w') \<Longrightarrow>
   trace w' = trace w @ [EFclose fd] \<and> files w' = files w \<and> dirs w' = dirs w"
  by (auto simp: fclose_def Let_def split: if_splits)

lemma fold_fprintf:
  "files w fd = Some s \<Longrightarrow>
   fold (\<lambda>(fmt, args). fprintf fd fmt (map val args)) calls w =
     w\<lparr>files := (files w)(fd \<mapsto> s @ concat (map (\<lambda>(fmt, args). c_format fmt (map val args)) calls))\<rparr>"
proof (induction calls arbitrary: w s)
  case Nil
  then show ?case by (simp add: fun_upd_idem)
next
  case (Cons c calls)
  obtain fmt args where c: "c = (fmt, args)" by (cases c)
  have "files (fprintf fd fmt (map val args) w) fd = Some (s @ c_format fmt (map val args))"
    using Cons.prems by simp
  from Cons.IH [OF this] show ?case
    using Cons.prems by (simp add: c fprintf_def cong: if_cong)
qed

lemma nsis_fold:
  "files w fd = Some [] \<Longrightarrow>
   fold (\<lambda>(fmt, args). fprintf fd fmt (map (arg_value pkg u p) args)) nsis_fprintf_calls w =
     w\<lparr>files := (files w)(fd \<mapsto> nsis_script_text pkg u p)\<rparr>"
  by (simp add: fold_fprintf nsis_script_text_def)

section \<open>Key creation: the passphrase precondition\<close>

lemma create_ssh_key_events:
  fixes e privpath w cmt pass
  defines "rc \<equiv> fst (g_mkdir_with_parents e (g_path_get_dirname privpath) w)"
    and "out \<equiv> key_spawn_outcome e privpath cmt pass w"
  assumes "cmt \<noteq> []" "5 \<le> length pass"
  shows "fst (create_ssh_key e (Some cmt) (Some pass) privpath w) =
           (if rc \<noteq> 0 \<or> invocation_failed out then -1 else 0)"
    and "new_events w (snd (create_ssh_key e (Some cmt) (Some pass) privpath w)) =
           EMkdirWithParents (g_path_get_dirname privpath) #
           (if rc \<noteq> 0 then
              [EDebug ''%s: failed to access %s''
                 [LStr ''create_ssh_key'', LStr (g_path_get_dirname privpath)]]
            else command_log privpath cmt # ESpawnCommandLine (ssh_keygen_command privpath cmt pass) out #
                 (if invocation_failed out then key_failure_log out else []))"
proof -
  obtain r w1 where mk: "g_mkdir_with_parents e (g_path_get_dirname privpath) w = (r, w1)"
    by (cases "g_mkdir_with_parents e (g_path_get_dirname privpath) w")
  let ?w2 = "g_debug ''command: ssh-keygen -t rsa -f %s -C \"%s\" -P \"********\"''
               [LStr privpath, LStr cmt] w1"
  let ?cmd = "ssh_keygen_command privpath cmt pass"
  obtain o' w3 where sp: "g_spawn_command_line_sync e ?cmd ?w2 = (o', w3)"
    by (cases "g_spawn_command_line_sync e ?cmd ?w2")
  have r: "r = rc" by (simp add: rc_def mk)
  have st: "key_spawn_state e privpath cmt w = ?w2"
    by (simp add: key_spawn_state_def mk command_log_def g_debug_def)
  have o': "o' = out"
    using sp by (simp add: out_def key_spawn_outcome_def st g_spawn_command_line_sync_def
        split: prod.splits)
  have cmd: "\<And>p c s. concat [''ssh-keygen -t rsa -f '', p, '' -C \"'', c, ''\" -P \"'', s, ''\"'']
      = ssh_keygen_command p c s"
    by (simp add: ssh_keygen_command_def)
  have t1: "trace w1 = trace w @ [EMkdirWithParents (g_path_get_dirname privpath)]"
    by (rule g_mkdir_with_parents_trace [OF mk])
  have t3: "trace w3 = trace ?w2 @ [ESpawnCommandLine ?cmd o']"
    by (rule g_spawn_command_line_sync_trace [OF sp])
  have unf: "create_ssh_key e (Some cmt) (Some pass) privpath w =
      (if r \<noteq> 0 then
         (-1, g_debug ''%s: failed to access %s'' [LStr ''create_ssh_key'', LStr (g_path_get_dirname privpath)] w1)
       else if invocation_failed o' then
         (-1, g_debug ''%s: stderr: %s'' [LStr ''create_ssh_key'', log_opt (standard_err o')]
               (g_debug ''%s: stdout: %s'' [LStr ''create_ssh_key'', log_opt (standard_out o')]
                 (g_debug ''%s: key-gen failed with %d (WIF %i, WEX %i).\<newline>'' (LStr ''create_ssh_key'' # wait_args o')
                   (case err_message o' of
                      Some m \<Rightarrow> g_debug ''%s: failed to create private key: %s\<newline>'' [LStr ''create_ssh_key'', LStr m] w3
                    | None \<Rightarrow> g_debug ''%s: failed to create private key\<newline>'' [LStr ''create_ssh_key''] w3))))
       else (0, w3))"
    using assms(3,4) unfolding create_ssh_key_def cmd
    by (simp add: mk sp Let_def)
  show "fst (create_ssh_key e (Some cmt) (Some pass) privpath w) =
           (if rc \<noteq> 0 \<or> invocation_failed out then -1 else 0)"
    by (simp add: unf r o')
  show "new_events w (snd (create_ssh_key e (Some cmt) (Some pass) privpath w)) =
           EMkdirWithParents (g_path_get_dirname privpath) #
           (if rc \<noteq> 0 then
              [EDebug ''%s: failed to access %s''
                 [LStr ''create_ssh_key'', LStr (g_path_get_dirname privpath)]]
            else command_log privpath cmt # ESpawnCommandLine (ssh_keygen_command privpath cmt pass) out #
                 (if invocation_failed out then key_failure_log out else []))"
    by (rule new_events_append)
      (simp add: unf r [symmetric] o' [symmetric] t1 t3 command_log_def key_failure_log_def
        split: option.splits)
qed


lemma create_ssh_key_short:
  "length pass < 5 \<Longrightarrow>
   fst (create_ssh_key e comment (Some pass) privpath w) = -1 \<and>
   filter is_spawn (new_events w (snd (create_ssh_key e comment (Some pass) privpath w))) = []"
  by (simp add: create_ssh_key_def split: option.splits)

lemma keys_create_mkdtemp_fails:
  "mkdtemp e ''/tmp/openvas_key_XXXXXX'' w = (None, w1) \<Longrightarrow>
   lsc_user_keys_create e password w = (-1, None, w)"
  by (auto simp: lsc_user_keys_create_def dest: mkdtemp_None)

lemma keys_create_short_steps:
  assumes "length pass < 5" "mkdtemp e ''/tmp/openvas_key_XXXXXX'' w = (Some key_dir, w1)"
  shows "lsc_user_keys_create e (Some pass) w =
           (-1, None, snd (gvm_file_remove_recurse e key_dir
              (g_debug ''%s: password must be longer than 4 characters'' [LStr ''create_ssh_key''] w1)))"
  using assms
  by (simp add: lsc_user_keys_create_def create_ssh_key_def Let_def split: prod.splits)

lemma keys_create_short:
  assumes "length pass < 5"
  shows "fst (lsc_user_keys_create e (Some pass) w) = -1 \<and>
   filter is_spawn (new_events w (snd (snd (lsc_user_keys_create e (Some pass) w)))) = []"
proof -
  obtain r w1 where mk: "mkdtemp e ''/tmp/openvas_key_XXXXXX'' w = (r, w1)"
    by (cases "mkdtemp e ''/tmp/openvas_key_XXXXXX'' w")
  show ?thesis
  proof (cases r)
    case None
    then show ?thesis using keys_create_mkdtemp_fails [of e w w1 "Some pass"] mk by simp
  next
    case (Some key_dir)
    let ?w2 = "g_debug ''%s: password must be longer than 4 characters'' [LStr ''create_ssh_key''] w1"
    obtain rc w3 where rm: "gvm_file_remove_recurse e key_dir ?w2 = (rc, w3)"
      by (cases "gvm_file_remove_recurse e key_dir ?w2")
    have "lsc_user_keys_create e (Some pass) w = (-1, None, w3)"
      using keys_create_short_steps [OF assms, of e w key_dir w1] mk Some rm by simp
    moreover have "trace w3 = trace w @ [EMkdtemp key_dir,
        EDebug ''%s: password must be longer than 4 characters'' [LStr ''create_ssh_key''],
        ERemoveRecurse key_dir]"
      using gvm_file_remove_recurse_trace [OF rm] mkdtemp_trace [OF mk] Some by simp
    ultimately show ?thesis by simp
  qed
qed

text \<open>
  Claim C6. A passphrase shorter than five characters makes \<open>create_ssh_key\<close>, and so
  \<open>lsc_user_keys_create\<close>, return -1 without any spawn. With five characters or more
  (and a comment) \<open>create_ssh_key\<close> goes on to the directory check, and once that has
  succeeded it spawns ssh-keygen exactly once.
\<close>

theorem passphrase_precondition:
  "(length pass < 5 \<longrightarrow>
      fst (create_ssh_key e comment (Some pass) privpath w) = -1 \<and>
      filter is_spawn (new_events w (snd (create_ssh_key e comment (Some pass) privpath w))) = [] \<and>
      fst (lsc_user_keys_create e (Some pass) w) = -1 \<and>
      filter is_spawn (new_events w (snd (snd (lsc_user_keys_create e (Some pass) w)))) = []) \<and>
   (5 \<le> length pass \<and> cmt \<noteq> [] \<longrightarrow>
      take 1 (new_events w (snd (create_ssh_key e (Some cmt) (Some pass) privpath w))) =
        [EMkdirWithParents (g_path_get_dirname privpath)] \<and>
      (fst (g_mkdir_with_parents e (g_path_get_dirname privpath) w) = 0 \<longrightarrow>
         filter is_spawn (new_events w (snd (create_ssh_key e (Some cmt) (Some pass) privpath w))) =
           [ESpawnCommandLine (ssh_keygen_command privpath cmt pass)
              (key_spawn_outcome e privpath cmt pass w)]))"
proof (intro conjI impI)
  assume "length pass < 5"
  then show "fst (create_ssh_key e comment (Some pass) privpath w) = -1"
    and "filter is_spawn (new_events w (snd (create_ssh_key e comment (Some pass) privpath w))) = []"
    and "fst (lsc_user_keys_create e (Some pass) w) = -1"
    and "filter is_spawn (new_events w (snd (snd (lsc_user_keys_create e (Some pass) w)))) = []"
    using create_ssh_key_short [of pass e comment privpath w] keys_create_short [of pass e w]
    by simp_all
next
  assume a: "5 \<le> length pass \<and> cmt \<noteq> []"
  note ev = create_ssh_key_events(2) [where cmt = cmt and pass = pass and e = e and privpath = privpath and w = w]
  show "take 1 (new_events w (snd (create_ssh_key e (Some cmt) (Some pass) privpath w))) =
        [EMkdirWithParents (g_path_get_dirname privpath)]"
    using a by (simp add: ev)
  show "filter is_spawn (new_events w (snd (create_ssh_key e (Some cmt) (Some pass) privpath w))) =
           [ESpawnCommandLine (ssh_keygen_command privpath cmt pass)
              (key_spawn_outcome e privpath cmt pass w)]"
    if "fst (g_mkdir_with_parents e (g_path_get_dirname privpath) w) = 0"
    using a that by (simp add: ev command_log_def key_failure_log_def split: option.splits)
qed

lemma idle_mkdir_tmp:
  "fst (g_mkdir_with_parents idle_env ''/tmp'' initial_world) = 0"
  by (simp add: g_mkdir_with_parents_def idle_env_def initial_world_def ancestors_or_self_def
      Let_def is_sep_def)

lemma dirname_tmp_key: "g_path_get_dirname ''/tmp/key'' = ''/tmp''"
  by (simp add: g_path_get_dirname_def is_sep_def)

theorem passphrase_precondition_witness:
  "length ''abcd'' < 5 \<and> fst (lsc_user_keys_create idle_env (Some ''abcd'') initial_world) = -1 \<and>
   5 \<le> length ''abcde'' \<and>
   filter is_spawn
      (new_events initial_world
         (snd (create_ssh_key idle_env (Some ''c'') (Some ''abcde'') ''/tmp/key'' initial_world))) =
      [ESpawnCommandLine (ssh_keygen_command ''/tmp/key'' ''c'' ''abcde'')
         (key_spawn_outcome idle_env ''/tmp/key'' ''c'' ''abcde'' initial_world)]"
  using passphrase_precondition [where pass = "''abcd''" and e = idle_env and w = initial_world]
    passphrase_precondition [where pass = "''abcde''" and e = idle_env and w = initial_world
      and cmt = "''c''" and privpath = "''/tmp/key''"]
    idle_mkdir_tmp
  by (simp add: dirname_tmp_key)

text \<open>
  Claim C10, as amended. With a password shorter than five characters
  \<open>lsc_user_keys_create\<close> still creates its temporary directory first; it then logs
  the rejection, calls \<open>gvm_file_remove_recurse\<close> on that directory once and returns
  -1 without looking at what the call reported, so the directory is gone on return
  exactly when the call succeeded. When \<open>mkdtemp\<close> fails it returns -1 at once,
  whatever the password, and leaves the world as it was.
\<close>

theorem keys_create_short_password:
  "(length pass < 5 \<and> mkdtemp e ''/tmp/openvas_key_XXXXXX'' w = (Some key_dir, wk) \<longrightarrow>
      key_dir \<notin> dirs w \<and> key_dir \<in> dirs wk \<and>
      fst (lsc_user_keys_create e (Some pass) w) = -1 \<and>
      new_events w (snd (snd (lsc_user_keys_create e (Some pass) w))) =
        [EMkdtemp key_dir,
         EDebug ''%s: password must be longer than 4 characters'' [LStr ''create_ssh_key''],
         ERemoveRecurse key_dir] \<and>
      (key_dir \<notin> dirs (snd (snd (lsc_user_keys_create e (Some pass) w))) \<longleftrightarrow>
         fst (gvm_file_remove_recurse e key_dir
                (g_debug ''%s: password must be longer than 4 characters''
                   [LStr ''create_ssh_key''] wk)) = 0)) \<and>
   (mkdtemp e ''/tmp/openvas_key_XXXXXX'' w = (None, wk) \<longrightarrow>
      lsc_user_keys_create e password w = (-1, None, w))"
proof (intro conjI impI)
  assume a: "length pass < 5 \<and> mkdtemp e ''/tmp/openvas_key_XXXXXX'' w = (Some key_dir, wk)"
  let ?w2 = "g_debug ''%s: password must be longer than 4 characters'' [LStr ''create_ssh_key''] wk"
  obtain r w3 where rm: "gvm_file_remove_recurse e key_dir ?w2 = (r, w3)"
    by (cases "gvm_file_remove_recurse e key_dir ?w2")
  have res: "lsc_user_keys_create e (Some pass) w = (-1, None, w3)"
    using keys_create_short_steps [of pass e w key_dir wk] a rm by simp
  have wk: "wk = record_event (EMkdtemp key_dir) (w\<lparr>dirs := insert key_dir (dirs w)\<rparr>)"
    and fresh: "key_dir \<notin> dirs w"
    using a mkdtemp_Some by blast+
  show "key_dir \<notin> dirs w" by (rule fresh)
  show "key_dir \<in> dirs wk" by (simp add: wk)
  show "fst (lsc_user_keys_create e (Some pass) w) = -1" by (simp add: res)
  have "trace w3 = trace w @ [EMkdtemp key_dir,
         EDebug ''%s: password must be longer than 4 characters'' [LStr ''create_ssh_key''],
         ERemoveRecurse key_dir]"
    using gvm_file_remove_recurse_trace [OF rm] by (simp add: wk)
  then show "new_events w (snd (snd (lsc_user_keys_create e (Some pass) w))) =
        [EMkdtemp key_dir,
         EDebug ''%s: password must be longer than 4 characters'' [LStr ''create_ssh_key''],
         ERemoveRecurse key_dir]"
    by (simp add: res)
  have "key_dir \<in> dirs ?w2" by (simp add: wk)
  then show "key_dir \<notin> dirs (snd (snd (lsc_user_keys_create e (Some pass) w))) \<longleftrightarrow>
      fst (gvm_file_remove_recurse e key_dir ?w2) = 0"
    using gvm_file_remove_recurse_failed [OF rm] gvm_file_remove_recurse_gone [of e key_dir ?w2 w3] rm
    by (auto simp: res)
next
  assume "mkdtemp e ''/tmp/openvas_key_XXXXXX'' w = (None, wk)"
  then show "lsc_user_keys_create e password w = (-1, None, w)"
    by (rule keys_create_mkdtemp_fails)
qed

lemma idle_mkdtemp_key:
  "mkdtemp idle_env ''/tmp/openvas_key_XXXXXX'' initial_world =
     (Some ''/tmp/openvas_key_aaaaaa'',
      record_event (EMkdtemp ''/tmp/openvas_key_aaaaaa'')
        (initial_world\<lparr>dirs := insert ''/tmp/openvas_key_aaaaaa'' (dirs initial_world)\<rparr>))"
  by (simp add: mkdtemp_def idle_env_def initial_world_def g_path_get_dirname_def is_sep_def Let_def)

lemma refusing_mkdtemp:
  "mkdtemp (idle_env\<lparr>mkdtemp_suffix := (\<lambda>t w. None)\<rparr>) ''/tmp/openvas_key_XXXXXX'' initial_world =
     (None, initial_world)"
  by (simp add: mkdtemp_def)

theorem keys_create_short_password_witness:
  "length ''abcd'' < 5 \<and>
   new_events initial_world (snd (snd (lsc_user_keys_create idle_env (Some ''abcd'') initial_world))) =
     [EMkdtemp ''/tmp/openvas_key_aaaaaa'',
      EDebug ''%s: password must be longer than 4 characters'' [LStr ''create_ssh_key''],
      ERemoveRecurse ''/tmp/openvas_key_aaaaaa''] \<and>
   ''/tmp/openvas_key_aaaaaa'' \<notin> dirs (snd (snd (lsc_user_keys_create idle_env (Some ''abcd'') initial_world))) \<and>
   lsc_user_keys_create (idle_env\<lparr>mkdtemp_suffix := (\<lambda>t w. None)\<rparr>) (Some ''secret'') initial_world =
     (-1, None, initial_world)"
  using keys_create_short_password [where pass = "''abcd''" and e = idle_env and w = initial_world
      and key_dir = "''/tmp/openvas_key_aaaaaa''"
      and wk = "record_event (EMkdtemp ''/tmp/openvas_key_aaaaaa'')
        (initial_world\<lparr>dirs := insert ''/tmp/openvas_key_aaaaaa'' (dirs initial_world)\<rparr>)"]
    keys_create_short_password [where e = "idle_env\<lparr>mkdtemp_suffix := (\<lambda>t w. None)\<rparr>"
      and w = initial_world and wk = initial_world and password = "Some ''secret''"]
    idle_mkdtemp_key refusing_mkdtemp
  by (simp add: gvm_file_remove_recurse_def idle_env_def Let_def)

lemma stuck_mkdtemp_key:
  "mkdtemp stuck_env ''/tmp/openvas_key_XXXXXX'' initial_world =
     (Some ''/tmp/openvas_key_aaaaaa'',
      record_event (EMkdtemp ''/tmp/openvas_key_aaaaaa'')
        (initial_world\<lparr>dirs := insert ''/tmp/openvas_key_aaaaaa'' (dirs initial_world)\<rparr>))"
  by (simp add: mkdtemp_def stuck_env_def idle_env_def initial_world_def g_path_get_dirname_def
      is_sep_def Let_def)

text \<open>
  Claim C10 as stated fails where it says that the directory is removed: the removal is
  attempted, but with a removal that fails the short-password path still returns -1 and
  the directory it created is there on return.
\<close>

theorem short_password_workspace_survives_counterexample:
  "length ''abcd'' < 5 \<and>
   ''/tmp/openvas_key_aaaaaa'' \<notin> dirs initial_world \<and>
   fst (lsc_user_keys_create stuck_env (Some ''abcd'') initial_world) = -1 \<and>
   new_events initial_world (snd (snd (lsc_user_keys_create stuck_env (Some ''abcd'') initial_world))) =
     [EMkdtemp ''/tmp/openvas_key_aaaaaa'',
      EDebug ''%s: password must be longer than 4 characters'' [LStr ''create_ssh_key''],
      ERemoveRecurse ''/tmp/openvas_key_aaaaaa''] \<and>
   ''/tmp/openvas_key_aaaaaa''
     \<in> dirs (snd (snd (lsc_user_keys_create stuck_env (Some ''abcd'') initial_world)))"
  by (simp add: lsc_user_keys_create_def create_ssh_key_def stuck_mkdtemp_key
      gvm_file_remove_recurse_def new_events_def Let_def)
    (simp add: stuck_env_def idle_env_def initial_world_def)

section \<open>Classification of an invocation\<close>

lemma WIFEXITED_take_bit: "(WIFEXITED s = 0) = (take_bit 7 s \<noteq> 0)"
proof -
  have "s AND 0x7f = take_bit 7 s"
    by (simp add: take_bit_eq_mask mask_eq_exp_minus_1)
  then show ?thesis by (simp add: WIFEXITED_def)
qed

lemma WEXITSTATUS_take_bit: "WEXITSTATUS s = take_bit 8 (drop_bit 8 s)"
proof -
  have c: "(0xff00 :: gint) = push_bit 8 (mask 8)"
    by (simp add: mask_eq_exp_minus_1)
  have "drop_bit 8 (s AND push_bit 8 (mask 8)) = take_bit 8 (drop_bit 8 s)"
    by (rule bit_word_eqI) (auto simp: bit_simps)
  then show ?thesis by (simp add: WEXITSTATUS_def c)
qed

lemma invocation_failed_classify: "invocation_failed out \<longleftrightarrow> classify out \<noteq> Exited 0"
  by (simp add: invocation_failed_def classify_def WIFEXITED_take_bit WEXITSTATUS_take_bit unat_eq_0)

lemma invocation_failed_output:
  "invocation_failed (out\<lparr>standard_out := so, standard_err := se\<rparr>) = invocation_failed out"
  by (simp add: invocation_failed_def)

lemma lsc_user_rpm_create_events:
  "\<exists>evs. trace (snd (lsc_user_rpm_create e u k t w)) = trace w @ evs \<and>
     filter is_load evs = [] \<and>
     (\<forall>d. EMkdtemp d \<in> set evs \<or> ERemoveRecurse d \<in> set evs \<longrightarrow> d \<notin> dirs w) \<and>
     (\<forall>c out. ESpawnCommandLine c out \<notin> set evs) \<and>
     (\<forall>wd argv out. ESpawn wd argv out \<in> set evs \<longrightarrow>
        (fst (lsc_user_rpm_create e u k t w) \<longrightarrow> \<not> invocation_failed out) \<and>
        (invocation_failed out \<longleftrightarrow>
           EDebug ''%s: failed to create the rpm: %d (WIF %i, WEX %i)''
             (LStr ''lsc_user_rpm_create'' # wait_args out) \<in> set evs))"
proof -
  let ?w0 = "g_debug ''%s: create temporary directory'' [LStr ''lsc_user_rpm_create''] w"
  obtain r w1 where mk: "mkdtemp e ''/tmp/lsc_user_rpm_create_XXXXXX'' ?w0 = (r, w1)"
    by (cases "mkdtemp e ''/tmp/lsc_user_rpm_create_XXXXXX'' ?w0")
  note t1 = mkdtemp_trace [OF mk]
  show ?thesis
  proof (cases r)
    case None
    then show ?thesis using t1 by (simp add: lsc_user_rpm_create_def mk)
  next
    case (Some tmpdir)
    have fresh: "tmpdir \<notin> dirs w"
      using mkdtemp_Some [OF mk [unfolded Some]] by simp
    let ?w3 = "g_debug ''%s: copy key to temporary directory\<newline>'' [LStr ''lsc_user_rpm_create'']
                (g_debug ''%s: temporary directory: %s\<newline>'' [LStr ''lsc_user_rpm_create'', LStr tmpdir] w1)"
    let ?new = "g_build_filename [tmpdir, u @ ''.pub'']"
    obtain copied w4 where cp: "gvm_file_copy e k ?new ?w3 = (copied, w4)"
      by (cases "gvm_file_copy e k ?new ?w3")
    note t4 = gvm_file_copy_trace [OF cp]
    show ?thesis
    proof (cases copied)
      case False
      then show ?thesis using t1 t4 Some fresh
        by (auto simp: lsc_user_rpm_create_def mk cp Let_def)
    next
      case True
      let ?cmd = "[g_build_filename [GVM_DATA_DIR e, ''gvm-lsc-rpm-creator.sh''], u, ?new, tmpdir, t]"
      let ?w6 = "g_debug ''%s: Spawning in %s: %s %s %s %s %s\<newline>''
                   [LStr ''lsc_user_rpm_create'', LStr tmpdir,
                    LStr (g_build_filename [GVM_DATA_DIR e, ''gvm-lsc-rpm-creator.sh'']),
                    LStr u, LStr ?new, LStr tmpdir, LStr t]
                   (g_debug ''%s: Attempting RPM build\<newline>'' [LStr ''lsc_user_rpm_create''] w4)"
      obtain out w7 where sp: "g_spawn_sync e tmpdir ?cmd ?w6 = (out, w7)"
        by (cases "g_spawn_sync e tmpdir ?cmd ?w6")
      note t7 = g_spawn_sync_trace [OF sp]
      let ?w8 = "if invocation_failed out then
                   g_debug ''%s: stderr: %s\<newline>'' [LStr ''lsc_user_rpm_create'', log_opt (standard_err out)]
                     (g_debug ''%s: stdout: %s\<newline>'' [LStr ''lsc_user_rpm_create'', log_opt (standard_out out)]
                       (g_debug ''%s: failed to create the rpm: %d (WIF %i, WEX %i)''
                          (LStr ''lsc_user_rpm_create'' # wait_args out) w7))
                 else w7"
      obtain rc w9 where rm: "gvm_file_remove_recurse e tmpdir ?w8 = (rc, w9)"
        by (cases "gvm_file_remove_recurse e tmpdir ?w8")
      note t9 = gvm_file_remove_recurse_trace [OF rm]
      have unf: "lsc_user_rpm_create e u k t w =
          (if rc \<noteq> 0 \<and> \<not> invocation_failed out then
             (False, g_debug ''%s: failed to remove temporary directory %s''
                       [LStr ''lsc_user_rpm_create'', LStr tmpdir] w9)
           else (\<not> invocation_failed out, w9))"
        using Some True rm
        by (simp add: lsc_user_rpm_create_def mk cp sp Let_def split: if_splits)
      show ?thesis
        using t1 t4 t7 t9 Some fresh by (auto simp: unf)
    qed
  qed
qed

lemma lsc_user_deb_create_events:
  "\<exists>evs. trace (snd (lsc_user_deb_create e u k t m w)) = trace w @ evs \<and>
     filter is_load evs = [] \<and>
     (\<forall>d. EMkdtemp d \<in> set evs \<or> ERemoveRecurse d \<in> set evs \<longrightarrow> d \<notin> dirs w) \<and>
     (\<forall>c out. ESpawnCommandLine c out \<notin> set evs) \<and>
     (\<forall>wd argv out. ESpawn wd argv out \<in> set evs \<longrightarrow>
        (fst (lsc_user_deb_create e u k t m w) \<longrightarrow> \<not> invocation_failed out) \<and>
        (invocation_failed out \<longleftrightarrow>
           EDebug ''%s: failed to create the deb: %d (WIF %i, WEX %i)''
             (LStr ''lsc_user_deb_create'' # wait_args out) \<in> set evs))"
proof -
  let ?w0 = "g_debug ''%s: create temporary directory'' [LStr ''lsc_user_deb_create''] w"
  obtain r w1 where mk: "mkdtemp e ''/tmp/lsc_user_deb_create_XXXXXX'' ?w0 = (r, w1)"
    by (cases "mkdtemp e ''/tmp/lsc_user_deb_create_XXXXXX'' ?w0")
  note t1 = mkdtemp_trace [OF mk]
  show ?thesis
  proof (cases r)
    case None
    then show ?thesis using t1 by (simp add: lsc_user_deb_create_def mk)
  next
    case (Some tmpdir)
    have fresh: "tmpdir \<notin> dirs w"
      using mkdtemp_Some [OF mk [unfolded Some]] by simp
    let ?w3 = "g_debug ''%s: copy key to temporary directory\<newline>'' [LStr ''lsc_user_deb_create'']
                (g_debug ''%s: temporary directory: %s\<newline>'' [LStr ''lsc_user_deb_create'', LStr tmpdir] w1)"
    let ?new = "g_build_filename [tmpdir, u @ ''.pub'']"
    obtain copied w4 where cp: "gvm_file_copy e k ?new ?w3 = (copied, w4)"
      by (cases "gvm_file_copy e k ?new ?w3")
    note t4 = gvm_file_copy_trace [OF cp]
    show ?thesis
    proof (cases copied)
      case False
      then show ?thesis using t1 t4 Some fresh
        by (auto simp: lsc_user_deb_create_def mk cp Let_def)
    next
      case True
      let ?cmd = "[g_build_filename [GVM_DATA_DIR e, ''gvm-lsc-deb-creator.sh''], u, ?new, tmpdir, t, m]"
      let ?w6 = "g_debug ''%s: Spawning in %s: %s %s %s %s %s %s\<newline>''
                   [LStr ''lsc_user_deb_create'', LStr tmpdir,
                    LStr (g_build_filename [GVM_DATA_DIR e, ''gvm-lsc-deb-creator.sh'']),
                    LStr u, LStr ?new, LStr tmpdir, LStr t, LStr m]
                   (g_debug ''%s: Attempting DEB build\<newline>'' [LStr ''lsc_user_deb_create''] w4)"
      obtain out w7 where sp: "g_spawn_sync e tmpdir ?cmd ?w6 = (out, w7)"
        by (cases "g_spawn_sync e tmpdir ?cmd ?w6")
      note t7 = g_spawn_sync_trace [OF sp]
      let ?w8 = "if invocation_failed out then
                   g_debug ''%s: stderr: %s\<newline>'' [LStr ''lsc_user_deb_create'', log_opt (standard_err out)]
                     (g_debug ''%s: stdout: %s\<newline>'' [LStr ''lsc_user_deb_create'', log_opt (standard_out out)]
                       (g_debug ''%s: failed to create the deb: %d (WIF %i, WEX %i)''
                          (LStr ''lsc_user_deb_create'' # wait_args out) w7))
                 else w7"
      obtain rc w9 where rm: "gvm_file_remove_recurse e tmpdir ?w8 = (rc, w9)"
        by (cases "gvm_file_remove_recurse e tmpdir ?w8")
      note t9 = gvm_file_remove_recurse_trace [OF rm]
      have unf: "lsc_user_deb_create e u k t m w =
          (if rc \<noteq> 0 \<and> \<not> invocation_failed out then
             (False, g_debug ''%s: failed to remove temporary directory %s''
                       [LStr ''lsc_user_deb_create'', LStr tmpdir] w9)
           else (\<not> invocation_failed out, w9))"
        using Some True rm
        by (simp add: lsc_user_deb_create_def mk cp sp Let_def split: if_splits)
      show ?thesis
        using t1 t4 t7 t9 Some fresh by (auto simp: unf)
    qed
  qed
qed


lemma execute_makensis_events:
  "\<exists>out. trace (snd (execute_makensis e script w)) =
       trace w @
       [EDebug ''--- executing makensis.\<newline>'' [],
        EDebug ''%s: Spawning in %s: %s %s\<newline>''
          [LStr ''execute_makensis'', LStr (g_path_get_dirname script), LStr ''makensis'', LStr script],
        ESpawn (g_path_get_dirname script) [''makensis'', script] out] @
       (if invocation_failed out then
          [EDebug ''%s: failed to create the exe: %d (WIF %i, WEX %i)''
             (LStr ''execute_makensis'' # wait_args out),
           EDebug ''%s: stdout: %s\<newline>'' [LStr ''execute_makensis'', log_opt (standard_out out)],
           EDebug ''%s: stderr: %s\<newline>'' [LStr ''execute_makensis'', log_opt (standard_err out)]]
        else []) \<and>
     fst (execute_makensis e script w) = (if invocation_failed out then -1 else 0)"
proof -
  let ?w2 = "g_debug ''%s: Spawning in %s: %s %s\<newline>''
               [LStr ''execute_makensis'', LStr (g_path_get_dirname script), LStr ''makensis'', LStr script]
               (g_debug ''--- executing makensis.\<newline>'' [] w)"
  obtain out w3 where sp: "g_spawn_sync e (g_path_get_dirname script) [''makensis'', script] ?w2 = (out, w3)"
    by (cases "g_spawn_sync e (g_path_get_dirname script) [''makensis'', script] ?w2")
  note t3 = g_spawn_sync_trace [OF sp]
  show ?thesis
    by (rule exI [of _ out]) (simp add: execute_makensis_def sp Let_def t3)
qed

lemma create_ssh_key_spawn:
  assumes "ESpawnCommandLine c out \<in> set (new_events w (snd (create_ssh_key e comment pass privpath w)))"
  shows "fst (create_ssh_key e comment pass privpath w) = 0 \<longleftrightarrow> \<not> invocation_failed out"
proof (cases "\<exists>cmt p. comment = Some cmt \<and> pass = Some p \<and> cmt \<noteq> [] \<and> 5 \<le> length p")
  case True
  then obtain cmt p where v: "comment = Some cmt" "pass = Some p" "cmt \<noteq> []" "5 \<le> length p"
    by blast
  note ev = create_ssh_key_events [where e = e and privpath = privpath and w = w, OF v(3,4)]
  show ?thesis
    using assms unfolding v ev
    by (auto simp: command_log_def key_failure_log_def split: if_splits option.splits)
next
  case False
  then have "new_events w (snd (create_ssh_key e comment pass privpath w)) =
      [EDebug ''%s: comment must be set'' [LStr ''create_ssh_key'']] \<or>
    new_events w (snd (create_ssh_key e comment pass privpath w)) =
      [EDebug ''%s: password must be longer than 4 characters'' [LStr ''create_ssh_key'']]"
    by (cases comment; cases pass) (auto simp: create_ssh_key_def)
  then show ?thesis using assms by auto
qed

lemma execute_makensis_spawn:
  assumes "ESpawn wd argv out \<in> set (new_events w (snd (execute_makensis e script w)))"
  shows "fst (execute_makensis e script w) = 0 \<longleftrightarrow> \<not> invocation_failed out"
proof -
  obtain o' where ev: "trace (snd (execute_makensis e script w)) =
       trace w @
       [EDebug ''--- executing makensis.\<newline>'' [],
        EDebug ''%s: Spawning in %s: %s %s\<newline>''
          [LStr ''execute_makensis'', LStr (g_path_get_dirname script), LStr ''makensis'', LStr script],
        ESpawn (g_path_get_dirname script) [''makensis'', script] o'] @
       (if invocation_failed o' then
          [EDebug ''%s: failed to create the exe: %d (WIF %i, WEX %i)''
             (LStr ''execute_makensis'' # wait_args o'),
           EDebug ''%s: stdout: %s\<newline>'' [LStr ''execute_makensis'', log_opt (standard_out o')],
           EDebug ''%s: stderr: %s\<newline>'' [LStr ''execute_makensis'', log_opt (standard_err o')]]
        else [])"
    and r: "fst (execute_makensis e script w) = (if invocation_failed o' then -1 else 0)"
    using execute_makensis_events [of e script w] by blast
  have "out = o'"
    using assms unfolding new_events_append [OF ev] by (auto split: if_splits)
  then show ?thesis by (simp add: r)
qed

lemma rpm_create_spawn:
  assumes "ESpawn wd argv out \<in> set (new_events w (snd (lsc_user_rpm_create e u k t w)))"
  shows "(fst (lsc_user_rpm_create e u k t w) \<longrightarrow> \<not> invocation_failed out) \<and>
     (invocation_failed out \<longleftrightarrow>
        EDebug ''%s: failed to create the rpm: %d (WIF %i, WEX %i)''
          (LStr ''lsc_user_rpm_create'' # wait_args out)
        \<in> set (new_events w (snd (lsc_user_rpm_create e u k t w))))"
  using lsc_user_rpm_create_events [of e u k t w] assms by (auto simp del: set_append)

lemma deb_create_spawn:
  assumes "ESpawn wd argv out \<in> set (new_events w (snd (lsc_user_deb_create e u k t m w)))"
  shows "(fst (lsc_user_deb_create e u k t m w) \<longrightarrow> \<not> invocation_failed out) \<and>
     (invocation_failed out \<longleftrightarrow>
        EDebug ''%s: failed to create the deb: %d (WIF %i, WEX %i)''
          (LStr ''lsc_user_deb_create'' # wait_args out)
        \<in> set (new_events w (snd (lsc_user_deb_create e u k t m w))))"
  using lsc_user_deb_create_events [of e u k t m w] assms by (auto simp del: set_append)

lemma lsc_user_rpm_create_verdict:
  "\<exists>evs. trace (snd (lsc_user_rpm_create e u k t w)) = trace w @ evs \<and>
     (fst (lsc_user_rpm_create e u k t w) \<longrightarrow>
        (\<exists>wd argv out. ESpawn wd argv out \<in> set evs)) \<and>
     (\<forall>wd argv out. ESpawn wd argv out \<in> set evs \<longrightarrow>
        filter is_spawn evs = [ESpawn wd argv out] \<and>
        argv = [g_build_filename [GVM_DATA_DIR e, ''gvm-lsc-rpm-creator.sh''], u,
                g_build_filename [wd, u @ ''.pub''], wd, t] \<and>
        (fst (lsc_user_rpm_create e u k t w) \<longleftrightarrow>
           \<not> invocation_failed out \<and>
           EDebug ''%s: failed to remove temporary directory %s''
             [LStr ''lsc_user_rpm_create'', LStr wd] \<notin> set evs))"
proof -
  let ?w0 = "g_debug ''%s: create temporary directory'' [LStr ''lsc_user_rpm_create''] w"
  obtain r w1 where mk: "mkdtemp e ''/tmp/lsc_user_rpm_create_XXXXXX'' ?w0 = (r, w1)"
    by (cases "mkdtemp e ''/tmp/lsc_user_rpm_create_XXXXXX'' ?w0")
  note t1 = mkdtemp_trace [OF mk]
  show ?thesis
  proof (cases r)
    case None
    then show ?thesis using t1 by (simp add: lsc_user_rpm_create_def mk)
  next
    case (Some tmpdir)
    let ?w3 = "g_debug ''%s: copy key to temporary directory\<newline>'' [LStr ''lsc_user_rpm_create'']
                (g_debug ''%s: temporary directory: %s\<newline>'' [LStr ''lsc_user_rpm_create'', LStr tmpdir] w1)"
    let ?new = "g_build_filename [tmpdir, u @ ''.pub'']"
    obtain copied w4 where cp: "gvm_file_copy e k ?new ?w3 = (copied, w4)"
      by (cases "gvm_file_copy e k ?new ?w3")
    note t4 = gvm_file_copy_trace [OF cp]
    show ?thesis
    proof (cases copied)
      case False
      then show ?thesis using t1 t4 Some
        by (auto simp: lsc_user_rpm_create_def mk cp Let_def)
    next
      case True
      let ?cmd = "[g_build_filename [GVM_DATA_DIR e, ''gvm-lsc-rpm-creator.sh''], u, ?new, tmpdir, t]"
      let ?w6 = "g_debug ''%s: Spawning in %s: %s %s %s %s %s\<newline>''
                   [LStr ''lsc_user_rpm_create'', LStr tmpdir,
                    LStr (g_build_filename [GVM_DATA_DIR e, ''gvm-lsc-rpm-creator.sh'']),
                    LStr u, LStr ?new, LStr tmpdir, LStr t]
                   (g_debug ''%s: Attempting RPM build\<newline>'' [LStr ''lsc_user_rpm_create''] w4)"
      obtain out w7 where sp: "g_spawn_sync e tmpdir ?cmd ?w6 = (out, w7)"
        by (cases "g_spawn_sync e tmpdir ?cmd ?w6")
      note t7 = g_spawn_sync_trace [OF sp]
      let ?w8 = "if invocation_failed out then
                   g_debug ''%s: stderr: %s\<newline>'' [LStr ''lsc_user_rpm_create'', log_opt (standard_err out)]
                     (g_debug ''%s: stdout: %s\<newline>'' [LStr ''lsc_user_rpm_create'', log_opt (standard_out out)]
                       (g_debug ''%s: failed to create the rpm: %d (WIF %i, WEX %i)''
                          (LStr ''lsc_user_rpm_create'' # wait_args out) w7))
                 else w7"
      obtain rc w9 where rm: "gvm_file_remove_recurse e tmpdir ?w8 = (rc, w9)"
        by (cases "gvm_file_remove_recurse e tmpdir ?w8")
      note t9 = gvm_file_remove_recurse_trace [OF rm]
      have unf: "lsc_user_rpm_create e u k t w =
          (if rc \<noteq> 0 \<and> \<not> invocation_failed out then
             (False, g_debug ''%s: failed to remove temporary directory %s''
                       [LStr ''lsc_user_rpm_create'', LStr tmpdir] w9)
           else (\<not> invocation_failed out, w9))"
        using Some True rm
        by (simp add: lsc_user_rpm_create_def mk cp sp Let_def split: if_splits)
      show ?thesis
        using t1 t4 t7 t9 Some by (auto simp: unf)
    qed
  qed
qed

lemma rpm_create_verdict:
  assumes "ESpawn wd argv out \<in> set (new_events w (snd (lsc_user_rpm_create e u k t w)))"
  shows "fst (lsc_user_rpm_create e u k t w) \<longleftrightarrow>
           \<not> invocation_failed out \<and>
           EDebug ''%s: failed to remove temporary directory %s''
             [LStr ''lsc_user_rpm_create'', LStr wd]
           \<notin> set (new_events w (snd (lsc_user_rpm_create e u k t w)))"
proof -
  obtain evs where tr: "trace (snd (lsc_user_rpm_create e u k t w)) = trace w @ evs"
    and v: "\<forall>wd argv out. ESpawn wd argv out \<in> set evs \<longrightarrow>
        (fst (lsc_user_rpm_create e u k t w) \<longleftrightarrow>
           \<not> invocation_failed out \<and>
           EDebug ''%s: failed to remove temporary directory %s''
             [LStr ''lsc_user_rpm_create'', LStr wd] \<notin> set evs)"
    using lsc_user_rpm_create_verdict [of e u k t w] by blast
  have "new_events w (snd (lsc_user_rpm_create e u k t w)) = evs"
    by (rule new_events_append [OF tr])
  with assms v show ?thesis by blast
qed

lemma lsc_user_deb_create_verdict:
  "\<exists>evs. trace (snd (lsc_user_deb_create e u k t m w)) = trace w @ evs \<and>
     (fst (lsc_user_deb_create e u k t m w) \<longrightarrow>
        (\<exists>wd argv out. ESpawn wd argv out \<in> set evs)) \<and>
     (\<forall>wd argv out. ESpawn wd argv out \<in> set evs \<longrightarrow>
        filter is_spawn evs = [ESpawn wd argv out] \<and>
        argv = [g_build_filename [GVM_DATA_DIR e, ''gvm-lsc-deb-creator.sh''], u,
                g_build_filename [wd, u @ ''.pub''], wd, t, m] \<and>
        (fst (lsc_user_deb_create e u k t m w) \<longleftrightarrow>
           \<not> invocation_failed out \<and>
           EDebug ''%s: failed to remove temporary directory %s''
             [LStr ''lsc_user_deb_create'', LStr wd] \<notin> set evs))"
proof -
  let ?w0 = "g_debug ''%s: create temporary directory'' [LStr ''lsc_user_deb_create''] w"
  obtain r w1 where mk: "mkdtemp e ''/tmp/lsc_user_deb_create_XXXXXX'' ?w0 = (r, w1)"
    by (cases "mkdtemp e ''/tmp/lsc_user_deb_create_XXXXXX'' ?w0")
  note t1 = mkdtemp_trace [OF mk]
  show ?thesis
  proof (cases r)
    case None
    then show ?thesis using t1 by (simp add: lsc_user_deb_create_def mk)
  next
    case (Some tmpdir)
    let ?w3 = "g_debug ''%s: copy key to temporary directory\<newline>'' [LStr ''lsc_user_deb_create'']
                (g_debug ''%s: temporary directory: %s\<newline>'' [LStr ''lsc_user_deb_create'', LStr tmpdir] w1)"
    let ?new = "g_build_filename [tmpdir, u @ ''.pub'']"
    obtain copied w4 where cp: "gvm_file_copy e k ?new ?w3 = (copied, w4)"
      by (cases "gvm_file_copy e k ?new ?w3")
    note t4 = gvm_file_copy_trace [OF cp]
    show ?thesis
    proof (cases copied)
      case False
      then show ?thesis using t1 t4 Some
        by (auto simp: lsc_user_deb_create_def mk cp Let_def)
    next
      case True
      let ?cmd = "[g_build_filename [GVM_DATA_DIR e, ''gvm-lsc-deb-creator.sh''], u, ?new, tmpdir, t, m]"
      let ?w6 = "g_debug ''%s: Spawning in %s: %s %s %s %s %s %s\<newline>''
                   [LStr ''lsc_user_deb_create'', LStr tmpdir,
                    LStr (g_build_filename [GVM_DATA_DIR e, ''gvm-lsc-deb-creator.sh'']),
                    LStr u, LStr ?new, LStr tmpdir, LStr t, LStr m]
                   (g_debug ''%s: Attempting DEB build\<newline>'' [LStr ''lsc_user_deb_create''] w4)"
      obtain out w7 where sp: "g_spawn_sync e tmpdir ?cmd ?w6 = (out, w7)"
        by (cases "g_spawn_sync e tmpdir ?cmd ?w6")
      note t7 = g_spawn_sync_trace [OF sp]
      let ?w8 = "if invocation_failed out then
                   g_debug ''%s: stderr: %s\<newline>'' [LStr ''lsc_user_deb_create'', log_opt (standard_err out)]
                     (g_debug ''%s: stdout: %s\<newline>'' [LStr ''lsc_user_deb_create'', log_opt (standard_out out)]
                       (g_debug ''%s: failed to create the deb: %d (WIF %i, WEX %i)''
                          (LStr ''lsc_user_deb_create'' # wait_args out) w7))
                 else w7"
      obtain rc w9 where rm: "gvm_file_remove_recurse e tmpdir ?w8 = (rc, w9)"
        by (cases "gvm_file_remove_recurse e tmpdir ?w8")
      note t9 = gvm_file_remove_recurse_trace [OF rm]
      have unf: "lsc_user_deb_create e u k t m w =
          (if rc \<noteq> 0 \<and> \<not> invocation_failed out then
             (False, g_debug ''%s: failed to remove temporary directory %s''
                       [LStr ''lsc_user_deb_create'', LStr tmpdir] w9)
           else (\<not> invocation_failed out, w9))"
        using Some True rm
        by (simp add: lsc_user_deb_create_def mk cp sp Let_def split: if_splits)
      show ?thesis
        using t1 t4 t7 t9 Some by (auto simp: unf)
    qed
  qed
qed

lemma deb_create_verdict:
  assumes "ESpawn wd argv out \<in> set (new_events w (snd (lsc_user_deb_create e u k t m w)))"
  shows "fst (lsc_user_deb_create e u k t m w) \<longleftrightarrow>
           \<not> invocation_failed out \<and>
           EDebug ''%s: failed to remove temporary directory %s''
             [LStr ''lsc_user_deb_create'', LStr wd]
           \<notin> set (new_events w (snd (lsc_user_deb_create e u k t m w)))"
proof -
  obtain evs where tr: "trace (snd (lsc_user_deb_create e u k t m w)) = trace w @ evs"
    and v: "\<forall>wd argv out. ESpawn wd argv out \<in> set evs \<longrightarrow>
        (fst (lsc_user_deb_create e u k t m w) \<longleftrightarrow>
           \<not> invocation_failed out \<and>
           EDebug ''%s: failed to remove temporary directory %s''
             [LStr ''lsc_user_deb_create'', LStr wd] \<notin> set evs)"
    using lsc_user_deb_create_verdict [of e u k t m w] by blast
  have "new_events w (snd (lsc_user_deb_create e u k t m w)) = evs"
    by (rule new_events_append [OF tr])
  with assms v show ?thesis by blast
qed

text \<open>
  Claim C7. The test the C code applies after each spawn fails exactly when the outcome
  is not "exited with code 0" (spawn failure, abnormal end or non-zero code), and it
  does not look at the captured output. \<open>create_ssh_key\<close> and \<open>execute_makensis\<close>
  return 0 exactly when the invocation they made is classified as a success. The RPM
  and DEB builders log the failure of the invocation exactly when it is not a success,
  and they return TRUE exactly when it is a success and the removal of their temporary
  directory, which follows, did not fail (the one other thing they report, by the line
  "failed to remove temporary directory").
\<close>

theorem invocation_classification:
  "(invocation_failed out \<longleftrightarrow> classify out \<noteq> Exited 0) \<and>
   invocation_failed (out\<lparr>standard_out := so, standard_err := se\<rparr>) = invocation_failed out \<and>
   (\<forall>c out. ESpawnCommandLine c out
        \<in> set (new_events w (snd (create_ssh_key e comment pass privpath w))) \<longrightarrow>
      (fst (create_ssh_key e comment pass privpath w) = 0 \<longleftrightarrow> classify out = Exited 0)) \<and>
   (\<forall>wd argv out. ESpawn wd argv out
        \<in> set (new_events w (snd (execute_makensis e script w))) \<longrightarrow>
      (fst (execute_makensis e script w) = 0 \<longleftrightarrow> classify out = Exited 0)) \<and>
   (\<forall>wd argv out. ESpawn wd argv out
        \<in> set (new_events w (snd (lsc_user_rpm_create e u k t w))) \<longrightarrow>
      (fst (lsc_user_rpm_create e u k t w) \<longleftrightarrow>
         classify out = Exited 0 \<and>
         EDebug ''%s: failed to remove temporary directory %s''
           [LStr ''lsc_user_rpm_create'', LStr wd]
         \<notin> set (new_events w (snd (lsc_user_rpm_create e u k t w)))) \<and>
      (classify out \<noteq> Exited 0 \<longleftrightarrow>
         EDebug ''%s: failed to create the rpm: %d (WIF %i, WEX %i)''
           (LStr ''lsc_user_rpm_create'' # wait_args out)
         \<in> set (new_events w (snd (lsc_user_rpm_create e u k t w))))) \<and>
   (\<forall>wd argv out. ESpawn wd argv out
        \<in> set (new_events w (snd (lsc_user_deb_create e u k t m w))) \<longrightarrow>
      (fst (lsc_user_deb_create e u k t m w) \<longleftrightarrow>
         classify out = Exited 0 \<and>
         EDebug ''%s: failed to remove temporary directory %s''
           [LStr ''lsc_user_deb_create'', LStr wd]
         \<notin> set (new_events w (snd (lsc_user_deb_create e u k t m w)))) \<and>
      (classify out \<noteq> Exited 0 \<longleftrightarrow>
         EDebug ''%s: failed to create the deb: %d (WIF %i, WEX %i)''
           (LStr ''lsc_user_deb_create'' # wait_args out)
         \<in> set (new_events w (snd (lsc_user_deb_create e u k t m w)))))"
proof (intro conjI allI impI)
  show "invocation_failed out \<longleftrightarrow> classify out \<noteq> Exited 0"
    by (rule invocation_failed_classify)
  show "invocation_failed (out\<lparr>standard_out := so, standard_err := se\<rparr>) = invocation_failed out"
    by (rule invocation_failed_output)
next
  fix c out
  assume "ESpawnCommandLine c out \<in> set (new_events w (snd (create_ssh_key e comment pass privpath w)))"
  from create_ssh_key_spawn [OF this]
  show "fst (create_ssh_key e comment pass privpath w) = 0 \<longleftrightarrow> classify out = Exited 0"
    by (simp add: invocation_failed_classify)
next
  fix wd argv out
  assume "ESpawn wd argv out \<in> set (new_events w (snd (execute_makensis e script w)))"
  from execute_makensis_spawn [OF this]
  show "fst (execute_makensis e script w) = 0 \<longleftrightarrow> classify out = Exited 0"
    by (simp add: invocation_failed_classify)
next
  fix wd argv out
  assume a: "ESpawn wd argv out \<in> set (new_events w (snd (lsc_user_rpm_create e u k t w)))"
  note r = rpm_create_spawn [OF a, unfolded invocation_failed_classify]
  note v = rpm_create_verdict [OF a, unfolded invocation_failed_classify]
  show "fst (lsc_user_rpm_create e u k t w) \<longleftrightarrow>
         classify out = Exited 0 \<and>
         EDebug ''%s: failed to remove temporary directory %s''
           [LStr ''lsc_user_rpm_create'', LStr wd]
         \<notin> set (new_events w (snd (lsc_user_rpm_create e u k t w)))"
    using v by simp
  show "classify out \<noteq> Exited 0 \<longleftrightarrow>
         EDebug ''%s: failed to create the rpm: %d (WIF %i, WEX %i)''
           (LStr ''lsc_user_rpm_create'' # wait_args out)
         \<in> set (new_events w (snd (lsc_user_rpm_create e u k t w)))"
    using r by simp
next
  fix wd argv out
  assume a: "ESpawn wd argv out \<in> set (new_events w (snd (lsc_user_deb_create e u k t m w)))"
  note r = deb_create_spawn [OF a, unfolded invocation_failed_classify]
  note v = deb_create_verdict [OF a, unfolded invocation_failed_classify]
  show "fst (lsc_user_deb_create e u k t m w) \<longleftrightarrow>
         classify out = Exited 0 \<and>
         EDebug ''%s: failed to remove temporary directory %s''
           [LStr ''lsc_user_deb_create'', LStr wd]
         \<notin> set (new_events w (snd (lsc_user_deb_create e u k t m w)))"
    using v by simp
  show "classify out \<noteq> Exited 0 \<longleftrightarrow>
         EDebug ''%s: failed to create the deb: %d (WIF %i, WEX %i)''
           (LStr ''lsc_user_deb_create'' # wait_args out)
         \<in> set (new_events w (snd (lsc_user_deb_create e u k t m w)))"
    using r by simp
qed

lemma idle_makensis:
  "fst (execute_makensis idle_env ''/tmp/p.nsis'' initial_world) = 0 \<and>
   new_events initial_world (snd (execute_makensis idle_env ''/tmp/p.nsis'' initial_world)) =
     [EDebug ''--- executing makensis.\<newline>'' [],
      EDebug ''%s: Spawning in %s: %s %s\<newline>''
        [LStr ''execute_makensis'', LStr ''/tmp'', LStr ''makensis'', LStr ''/tmp/p.nsis''],
      ESpawn ''/tmp'' [''makensis'', ''/tmp/p.nsis''] exited_zero]"
  by (simp add: execute_makensis_def g_spawn_sync_def idle_env_def initial_world_def
      g_path_get_dirname_def is_sep_def invocation_failed_def WIFEXITED_def WEXITSTATUS_def
      exited_zero_def Let_def new_events_def)

lemma chatty_classify: "classify chatty_zero = Exited 0"
  by (simp add: classify_def chatty_zero_def)

lemma chatty_rpm_create:
  "new_events keyed_world
     (snd (lsc_user_rpm_create chatty_env ''alice'' ''/tmp/key.pub'' ''/tmp/p.rpm'' keyed_world)) =
     [EDebug ''%s: create temporary directory'' [LStr ''lsc_user_rpm_create''],
      EMkdtemp ''/tmp/lsc_user_rpm_create_aaaaaa'',
      EDebug ''%s: temporary directory: %s\<newline>''
        [LStr ''lsc_user_rpm_create'', LStr ''/tmp/lsc_user_rpm_create_aaaaaa''],
      EDebug ''%s: copy key to temporary directory\<newline>'' [LStr ''lsc_user_rpm_create''],
      ECopy ''/tmp/key.pub'' ''/tmp/lsc_user_rpm_create_aaaaaa/alice.pub'',
      EDebug ''%s: Attempting RPM build\<newline>'' [LStr ''lsc_user_rpm_create''],
      EDebug ''%s: Spawning in %s: %s %s %s %s %s\<newline>''
        [LStr ''lsc_user_rpm_create'', LStr ''/tmp/lsc_user_rpm_create_aaaaaa'',
         LStr ''/usr/share/gvm/gvm-lsc-rpm-creator.sh'', LStr ''alice'',
         LStr ''/tmp/lsc_user_rpm_create_aaaaaa/alice.pub'',
         LStr ''/tmp/lsc_user_rpm_create_aaaaaa'', LStr ''/tmp/p.rpm''],
      ESpawn ''/tmp/lsc_user_rpm_create_aaaaaa''
        [''/usr/share/gvm/gvm-lsc-rpm-creator.sh'', ''alice'',
         ''/tmp/lsc_user_rpm_create_aaaaaa/alice.pub'', ''/tmp/lsc_user_rpm_create_aaaaaa'',
         ''/tmp/p.rpm''] chatty_zero,
      ERemoveRecurse ''/tmp/lsc_user_rpm_create_aaaaaa'']"
  by (simp add: lsc_user_rpm_create_def mkdtemp_def gvm_file_copy_def g_spawn_sync_def
      gvm_file_remove_recurse_def chatty_env_def idle_env_def keyed_world_def new_events_def
      g_build_filename_def g_path_get_dirname_def is_sep_def Let_def
      invocation_failed_classify chatty_classify)

theorem invocation_classification_witness:
  "ESpawn ''/tmp'' [''makensis'', ''/tmp/p.nsis''] exited_zero
     \<in> set (new_events initial_world (snd (execute_makensis idle_env ''/tmp/p.nsis'' initial_world))) \<and>
   fst (execute_makensis idle_env ''/tmp/p.nsis'' initial_world) = 0 \<and>
   classify exited_zero = Exited 0 \<and>
   ESpawn ''/tmp/lsc_user_rpm_create_aaaaaa''
        [''/usr/share/gvm/gvm-lsc-rpm-creator.sh'', ''alice'',
         ''/tmp/lsc_user_rpm_create_aaaaaa/alice.pub'', ''/tmp/lsc_user_rpm_create_aaaaaa'',
         ''/tmp/p.rpm''] chatty_zero
     \<in> set (new_events keyed_world
         (snd (lsc_user_rpm_create chatty_env ''alice'' ''/tmp/key.pub'' ''/tmp/p.rpm'' keyed_world))) \<and>
   standard_out chatty_zero = Some ''error: nothing built'' \<and>
   classify chatty_zero = Exited 0 \<and>
   fst (lsc_user_rpm_create chatty_env ''alice'' ''/tmp/key.pub'' ''/tmp/p.rpm'' keyed_world)"
  using invocation_classification [where e = idle_env and w = initial_world
      and script = "''/tmp/p.nsis''"] idle_makensis
    invocation_classification [where e = chatty_env and w = keyed_world and u = "''alice''"
      and k = "''/tmp/key.pub''" and t = "''/tmp/p.rpm''"]
    chatty_classify
  by (simp add: chatty_rpm_create chatty_zero_def)

section \<open>The installer script\<close>

lemma instantiate_append [simp]:
  "instantiate (s @ t) val = instantiate s val @ instantiate t val"
  by (induction s val rule: instantiate.induct) auto

lemma instantiate_concat:
  "instantiate (concat ts) val = concat (map (\<lambda>t. instantiate t val) ts)"
  by (induction ts) auto

lemma instantiate_format_template:
  "instantiate (format_template fmt args) val = c_format fmt (map val args)"
  by (induction fmt args rule: format_template.induct) (auto split: list.splits)

lemma nsis_script_text_template:
  "nsis_script_text pkg u p = instantiate nsis_template (arg_value pkg u p)"
  by (simp add: nsis_script_text_def nsis_template_def instantiate_concat
      instantiate_format_template comp_def split_def)

lemma slots_append [simp]: "slots (s @ t) a = slots s a + slots t a"
  by (simp add: slots_def)

lemma slots_concat: "slots (concat ts) a = sum_list (map (\<lambda>t. slots t a) ts)"
  by (induction ts) (auto simp: slots_def)

lemma slots_Cons [simp]:
  "slots (Lit s # t) a = slots t a"
  "slots (Slot b # t) a = (if b = a then Suc (slots t a) else slots t a)"
  "slots [] a = 0"
  by (simp_all add: slots_def)

lemma slots_format_template_no_args [simp]: "slots (format_template fmt []) a = 0"
  by (induction fmt "[] :: nsis_arg list" rule: format_template.induct) auto

lemma nsis_template_slots:
  "slots nsis_template Arg_package_name = 1"
  "slots nsis_template Arg_user_name = 4"
  "slots nsis_template Arg_password = 1"
  unfolding nsis_template_def slots_concat map_map comp_def
  by (simp_all add: nsis_fprintf_calls_def BSL_def)


lemma length_instantiate:
  "length (instantiate t (arg_value pkg u p)) =
     length (instantiate t (arg_value [] [] [])) +
     slots t Arg_package_name * length pkg + slots t Arg_user_name * length u +
     slots t Arg_password * length p"
proof (induction t)
  case Nil
  show ?case by simp
next
  case (Cons x t)
  show ?case
  proof (cases x)
    case (Lit s)
    with Cons show ?thesis by simp
  next
    case (Slot a)
    with Cons show ?thesis by (cases a) simp_all
  qed
qed

lemma create_nsis_script_files:
  "files (snd (create_nsis_script e script pkg u p w)) script =
     (if fst (fopen_w e script w) = None then files w script
      else Some (nsis_script_text pkg u p))"
proof -
  obtain fd w1 where fo: "fopen_w e script w = (fd, w1)"
    by (cases "fopen_w e script w")
  show ?thesis
  proof (cases fd)
    case None
    then show ?thesis using fo
      by (auto simp: create_nsis_script_def fopen_w_def Let_def split: if_splits)
  next
    case (Some f)
    then have f: "f = script" and fs: "files w1 = (files w)(script \<mapsto> [])"
      using fopen_w_Some [of e script w f w1] fo by simp_all
    have "files w1 script = Some []" by (simp add: fs)
    note fold = nsis_fold [OF this, of pkg u p]
    obtain rc w3 where fc:
      "fclose e script (w1\<lparr>files := (files w1)(script \<mapsto> nsis_script_text pkg u p)\<rparr>) = (rc, w3)"
      by (cases "fclose e script (w1\<lparr>files := (files w1)(script \<mapsto> nsis_script_text pkg u p)\<rparr>)")
    from fclose_trace [OF fc] have "files w3 script = Some (nsis_script_text pkg u p)"
      by simp
    then show ?thesis
      using fo Some f by (simp add: create_nsis_script_def fold fc)
  qed
qed

text \<open>
  Claim C3, as amended. What \<open>create_nsis_script\<close> writes is one fixed template
  instantiated with its arguments. The template has six substitution points: the
  package name once, the user name four times (uninstaller name, \<open>net user\<close>,
  \<open>net localgroup\<close>, and \<open>net user ... /delete\<close> in the uninstall section) and the
  password once. Whenever the script file could be opened, it holds exactly that text.
\<close>

theorem nsis_script_template:
  "nsis_script_text package_name user_name password =
     instantiate nsis_template (arg_value package_name user_name password) \<and>
   slots nsis_template Arg_package_name = 1 \<and>
   slots nsis_template Arg_user_name = 4 \<and>
   slots nsis_template Arg_password = 1 \<and>
   files (snd (create_nsis_script e script_name package_name user_name password w)) script_name =
     (if fst (fopen_w e script_name w) = None then files w script_name
      else Some (nsis_script_text package_name user_name password))"
  using nsis_script_text_template nsis_template_slots create_nsis_script_files by simp

text \<open>
  Claim C3 as stated fails: no template with one package name, three user names and one
  password renders the script for every input.
\<close>

theorem nsis_script_three_user_names_counterexample:
  "\<not> (\<exists>t. slots t Arg_package_name = 1 \<and> slots t Arg_user_name = 3 \<and> slots t Arg_password = 1 \<and>
          (\<forall>package_name user_name password.
              nsis_script_text package_name user_name password =
                instantiate t (arg_value package_name user_name password)))"
proof
  assume "\<exists>t. slots t Arg_package_name = 1 \<and> slots t Arg_user_name = 3 \<and> slots t Arg_password = 1 \<and>
          (\<forall>package_name user_name password.
              nsis_script_text package_name user_name password =
                instantiate t (arg_value package_name user_name password))"
  then obtain t where three: "slots t Arg_user_name = 3"
    and eq: "\<And>pkg u p. nsis_script_text pkg u p = instantiate t (arg_value pkg u p)"
    by blast
  have same: "length (instantiate t (arg_value pkg u p)) =
      length (instantiate nsis_template (arg_value pkg u p))" for pkg u p
    using eq [of pkg u p] by (simp add: nsis_script_text_template)
  from same [of "[]" "[]" "[]"] same [of "[]" "''u''" "[]"]
  have "slots t Arg_user_name = slots nsis_template Arg_user_name"
    by (simp add: length_instantiate [of _ "[]" "''u''" "[]"])
  then show False using three by (simp add: nsis_template_slots)
qed

section \<open>The installer pipeline\<close>















lemma create_nsis_script_events:
  "trace (snd (create_nsis_script e script pkg u p w)) = trace w @
     (if fst (fopen_w e script w) = None then [EFopen script] else [EFopen script, EFclose script]) \<and>
   (fst (fopen_w e script w) = None \<longrightarrow> fst (create_nsis_script e script pkg u p w) = -1) \<and>
   (fst (create_nsis_script e script pkg u p w) = 0 \<or>
    fst (create_nsis_script e script pkg u p w) = -1)"
proof -
  obtain fd w1 where fo: "fopen_w e script w = (fd, w1)"
    by (cases "fopen_w e script w")
  note t1 = fopen_w_trace [OF fo]
  show ?thesis
  proof (cases fd)
    case None
    then show ?thesis using fo t1 by (simp add: create_nsis_script_def)
  next
    case (Some f)
    then have f: "f = script" and fs: "files w1 = (files w)(script \<mapsto> [])"
      using fopen_w_Some [of e script w f w1] fo by simp_all
    have "files w1 script = Some []" by (simp add: fs)
    note fold = nsis_fold [OF this, of pkg u p]
    obtain rc w3 where fc:
      "fclose e script (w1\<lparr>files := (files w1)(script \<mapsto> nsis_script_text pkg u p)\<rparr>) = (rc, w3)"
      by (cases "fclose e script (w1\<lparr>files := (files w1)(script \<mapsto> nsis_script_text pkg u p)\<rparr>)")
    from fclose_trace [OF fc] have "trace w3 = trace w @ [EFopen script, EFclose script]"
      by (simp add: t1)
    then show ?thesis
      using fo Some f by (simp add: create_nsis_script_def fold fc)
  qed
qed

lemma lsc_user_exe_create_events:
  fixes e u p to_filename w
  defines "script \<equiv> nsis_script_path to_filename"
  defines "r \<equiv> lsc_user_exe_create e u p to_filename w"
  defines "c \<equiv> create_nsis_script e script to_filename u p w"
  shows "take 1 (new_events w (snd r)) = [EFopen script]"
    and "ESpawn wd argv out \<in> set (new_events w (snd r)) \<Longrightarrow>
           wd = g_path_get_dirname script \<and> argv = [''makensis'', script]"
    and "fst c = 0 \<Longrightarrow>
           \<exists>out. filter is_spawn (new_events w (snd r)) =
             [ESpawn (g_path_get_dirname script) [''makensis'', script] out] \<and>
             fst r = (if invocation_failed out then -1 else 0)"
    and "fst c \<noteq> 0 \<Longrightarrow> fst r = -1 \<and> filter is_spawn (new_events w (snd r)) = []"
    and "\<exists>evs. trace (snd r) = trace w @ evs \<and> filter is_load evs = [] \<and>
           filter is_workspace_event evs = []"
proof -
  obtain rc w1 where cn: "create_nsis_script e script to_filename u p w = (rc, w1)"
    by (cases "create_nsis_script e script to_filename u p w")
  have c: "c = (rc, w1)" by (simp add: c_def cn)
  have t1: "trace w1 = trace w @
      (if fst (fopen_w e script w) = None then [EFopen script] else [EFopen script, EFclose script])"
    using create_nsis_script_events [of e script to_filename u p w] cn by simp
  obtain rc' w2 where mk: "execute_makensis e script w1 = (rc', w2)"
    by (cases "execute_makensis e script w1")
  obtain out where t2: "trace w2 = trace w1 @
       [EDebug ''--- executing makensis.\<newline>'' [],
        EDebug ''%s: Spawning in %s: %s %s\<newline>''
          [LStr ''execute_makensis'', LStr (g_path_get_dirname script), LStr ''makensis'', LStr script],
        ESpawn (g_path_get_dirname script) [''makensis'', script] out] @
       (if invocation_failed out then
          [EDebug ''%s: failed to create the exe: %d (WIF %i, WEX %i)''
             (LStr ''execute_makensis'' # wait_args out),
           EDebug ''%s: stdout: %s\<newline>'' [LStr ''execute_makensis'', log_opt (standard_out out)],
           EDebug ''%s: stderr: %s\<newline>'' [LStr ''execute_makensis'', log_opt (standard_err out)]]
        else [])"
    and r2: "rc' = (if invocation_failed out then -1 else 0)"
    using execute_makensis_events [of e script w1] mk by auto
  have unf: "r = (if rc \<noteq> 0 then
        (-1, g_warning ''%s: Failed to create NSIS script\<newline>'' [LStr ''lsc_user_exe_create''] w1)
      else if rc' \<noteq> 0 then
        (-1, g_warning ''%s: Failed to execute makensis\<newline>'' [LStr ''lsc_user_exe_create''] w2)
      else (0, w2))"
    by (simp add: r_def lsc_user_exe_create_def nsis_script_path_def [symmetric]
        script_def [symmetric] cn mk Let_def)
  have tr: "trace (snd r) = trace w @
      (if fst (fopen_w e script w) = None then [EFopen script] else [EFopen script, EFclose script]) @
      (if rc \<noteq> 0 then [EWarning ''%s: Failed to create NSIS script\<newline>'' [LStr ''lsc_user_exe_create'']]
       else [EDebug ''--- executing makensis.\<newline>'' [],
        EDebug ''%s: Spawning in %s: %s %s\<newline>''
          [LStr ''execute_makensis'', LStr (g_path_get_dirname script), LStr ''makensis'', LStr script],
        ESpawn (g_path_get_dirname script) [''makensis'', script] out] @
       (if invocation_failed out then
          [EDebug ''%s: failed to create the exe: %d (WIF %i, WEX %i)''
             (LStr ''execute_makensis'' # wait_args out),
           EDebug ''%s: stdout: %s\<newline>'' [LStr ''execute_makensis'', log_opt (standard_out out)],
           EDebug ''%s: stderr: %s\<newline>'' [LStr ''execute_makensis'', log_opt (standard_err out)],
           EWarning ''%s: Failed to execute makensis\<newline>'' [LStr ''lsc_user_exe_create'']]
        else []))"
    by (simp add: unf t1 t2 r2)
  note ne = new_events_append [OF tr]
  show "take 1 (new_events w (snd r)) = [EFopen script]"
    unfolding ne by simp
  show "wd = g_path_get_dirname script \<and> argv = [''makensis'', script]"
    if "ESpawn wd argv out \<in> set (new_events w (snd r))" for wd argv out
    using that unfolding ne by (auto split: if_splits)
  show "\<exists>out. filter is_spawn (new_events w (snd r)) =
             [ESpawn (g_path_get_dirname script) [''makensis'', script] out] \<and>
             fst r = (if invocation_failed out then -1 else 0)" if "fst c = 0"
    using that unfolding ne c by (intro exI [of _ out]) (simp add: unf r2)
  show "fst r = -1 \<and> filter is_spawn (new_events w (snd r)) = []" if "fst c \<noteq> 0"
    using that unfolding ne c by (simp add: unf)
  show "\<exists>evs. trace (snd r) = trace w @ evs \<and> filter is_load evs = [] \<and>
           filter is_workspace_event evs = []"
    unfolding tr by simp
qed



lemmas path_eval = g_build_filename_def g_path_get_dirname_def is_sep_def Let_def



lemma idle_not_failed: "\<not> invocation_failed exited_zero"
  by (simp add: invocation_failed_def exited_zero_def WIFEXITED_def WEXITSTATUS_def)

lemma idle_exe_create:
  "lsc_user_exe_create idle_env u p ''/tmp/exe_aaaaaa/p.nsis'' (exe_world\<lparr>trace := tr\<rparr>) =
     (0, \<lparr>files = [''/tmp/exe_aaaaaa/p.nsis'' \<mapsto> nsis_script_text ''/tmp/exe_aaaaaa/p.nsis'' u p],
          dirs = {''/tmp'', ''/tmp/exe_aaaaaa''},
          trace = tr @
                  [EFopen ''/tmp/exe_aaaaaa/p.nsis'', EFclose ''/tmp/exe_aaaaaa/p.nsis'',
                   EDebug ''--- executing makensis.\<newline>'' [],
                   EDebug ''%s: Spawning in %s: %s %s\<newline>''
                     [LStr ''execute_makensis'', LStr ''/tmp/exe_aaaaaa'', LStr ''makensis'',
                      LStr ''/tmp/exe_aaaaaa/p.nsis''],
                   ESpawn ''/tmp/exe_aaaaaa'' [''makensis'', ''/tmp/exe_aaaaaa/p.nsis''] exited_zero]\<rparr>)"
  by (simp add: lsc_user_exe_create_def create_nsis_script_def execute_makensis_def
      fopen_w_def fclose_def g_spawn_sync_def nsis_fold idle_not_failed
      idle_env_def exe_world_def path_eval g_debug_def record_event_def)








lemma idle_mkdtemp_exe:
  "mkdtemp idle_env ''/tmp/exe_XXXXXX'' initial_world =
     (Some ''/tmp/exe_aaaaaa'', exe_world\<lparr>trace := [EMkdtemp ''/tmp/exe_aaaaaa'']\<rparr>)"
  by (simp add: mkdtemp_def idle_env_def initial_world_def exe_world_def path_eval
      record_event_def insert_commute)


text \<open>
  Claim C1 at its failing input. \<open>lsc_user_exe_recreate\<close> names its package
  \<open>p.nsis\<close>, the very file \<open>lsc_user_exe_create\<close> writes the script to. With a
  \<open>makensis\<close> that exits with code 0 and writes nothing, the load therefore finds the
  script, and the operation returns 0 with the script text as the package.
\<close>

theorem exe_recreate_returns_script:
  "fst (lsc_user_exe_recreate idle_env ''user'' ''secret'' initial_world) = 0 \<and>
   fst (snd (lsc_user_exe_recreate idle_env ''user'' ''secret'' initial_world)) =
     Some (nsis_script_text ''/tmp/exe_aaaaaa/p.nsis'' ''user'' ''secret'') \<and>
   filter is_spawn (trace (snd (snd (lsc_user_exe_recreate idle_env ''user'' ''secret'' initial_world)))) =
     [ESpawn ''/tmp/exe_aaaaaa'' [''makensis'', ''/tmp/exe_aaaaaa/p.nsis''] exited_zero] \<and>
   classify exited_zero = Exited 0 \<and>
   (\<forall>wd argv w. snd (run_argv idle_env wd argv w) = w)"
proof -
  have "classify exited_zero = Exited 0"
    using idle_not_failed by (simp add: invocation_failed_classify)
  moreover have "\<forall>wd argv w. snd (run_argv idle_env wd argv w) = w"
    by (simp add: idle_env_def)
  moreover have "lsc_user_exe_recreate idle_env ''user'' ''secret'' initial_world =
     (0, Some (nsis_script_text ''/tmp/exe_aaaaaa/p.nsis'' ''user'' ''secret''),
      snd (snd (lsc_user_exe_recreate idle_env ''user'' ''secret'' initial_world)))"
    by (simp add: lsc_user_exe_recreate_def idle_mkdtemp_exe idle_exe_create
        g_file_get_contents_def gvm_file_remove_recurse_def path_eval Let_def)
      (simp add: idle_env_def)
  moreover have "filter is_spawn (trace (snd (snd (lsc_user_exe_recreate idle_env ''user'' ''secret'' initial_world)))) =
     [ESpawn ''/tmp/exe_aaaaaa'' [''makensis'', ''/tmp/exe_aaaaaa/p.nsis''] exited_zero]"
    by (simp add: lsc_user_exe_recreate_def idle_mkdtemp_exe idle_exe_create
        g_file_get_contents_def gvm_file_remove_recurse_def path_eval Let_def)
  ultimately show ?thesis by (metis fst_conv snd_conv)
qed

text \<open>The RPM operation in the same surroundings does report the missing package.\<close>

lemma rpm_recreate_detects_missing_file:
  "fst (lsc_user_rpm_recreate idle_env ''user'' ''key'' initial_world) = -1"
  by (simp add: lsc_user_rpm_recreate_def lsc_user_rpm_create_def mkdtemp_def
      g_file_set_contents_def gvm_file_copy_def g_spawn_sync_def g_file_get_contents_def
      gvm_file_remove_recurse_def idle_env_def initial_world_def path_eval idle_not_failed
      under_def)

section \<open>Key creation: what is logged\<close>

lemma create_ssh_key_invalid:
  assumes "\<not> (\<exists>cmt. comment = Some cmt \<and> cmt \<noteq> [])"
  shows "create_ssh_key e comment pass privpath w =
           (-1, g_debug ''%s: comment must be set'' [LStr ''create_ssh_key''] w)"
  using assms by (cases comment) (auto simp: create_ssh_key_def)

lemma create_ssh_key_log_independent:
  fixes e comment privpath w p1 p2
  assumes "5 \<le> length p1" "5 \<le> length p2"
  defines "ev1 \<equiv> new_events w (snd (create_ssh_key e comment (Some p1) privpath w))"
    and "ev2 \<equiv> new_events w (snd (create_ssh_key e comment (Some p2) privpath w))"
  shows "takeWhile (\<lambda>ev. \<not> is_spawn ev) ev1 = takeWhile (\<lambda>ev. \<not> is_spawn ev) ev2"
    and "concat (map outcome_of ev1) = concat (map outcome_of ev2) \<Longrightarrow>
         filter is_log ev1 = filter is_log ev2"
proof -
  have "takeWhile (\<lambda>ev. \<not> is_spawn ev) ev1 = takeWhile (\<lambda>ev. \<not> is_spawn ev) ev2 \<and>
    (concat (map outcome_of ev1) = concat (map outcome_of ev2) \<longrightarrow>
         filter is_log ev1 = filter is_log ev2)"
  proof (cases "\<exists>cmt. comment = Some cmt \<and> cmt \<noteq> []")
    case False
    then show ?thesis
      by (simp add: ev1_def ev2_def create_ssh_key_invalid)
  next
    case True
    then obtain cmt where c: "comment = Some cmt" "cmt \<noteq> []" by blast
    note e1 = create_ssh_key_events(2) [where e = e and privpath = privpath and w = w, OF c(2) assms(1)]
    note e2 = create_ssh_key_events(2) [where e = e and privpath = privpath and w = w, OF c(2) assms(2)]
    show ?thesis
      unfolding ev1_def ev2_def c e1 e2
      by (simp add: command_log_def key_failure_log_def split: option.splits)
  qed
  then show "takeWhile (\<lambda>ev. \<not> is_spawn ev) ev1 = takeWhile (\<lambda>ev. \<not> is_spawn ev) ev2"
    and "concat (map outcome_of ev1) = concat (map outcome_of ev2) \<Longrightarrow>
         filter is_log ev1 = filter is_log ev2"
    by blast+
qed

text \<open>
  What does hold of the log. For two passphrases of five characters or more, everything
  \<open>create_ssh_key\<close> puts on the trace before the spawn, the redacted command line
  included, is the same, and the whole log is the same whenever the spawn reports the
  same outcome for both: what is logged after the spawn is the error message and the
  captured output of the outcome, nothing else. The spawned command line itself carries
  the passphrase.
\<close>

theorem key_log_redaction:
  "(5 \<le> length p1 \<and> 5 \<le> length p2 \<longrightarrow>
      takeWhile (\<lambda>ev. \<not> is_spawn ev)
          (new_events w (snd (create_ssh_key e comment (Some p1) privpath w))) =
        takeWhile (\<lambda>ev. \<not> is_spawn ev)
          (new_events w (snd (create_ssh_key e comment (Some p2) privpath w))) \<and>
      (concat (map outcome_of (new_events w (snd (create_ssh_key e comment (Some p1) privpath w)))) =
         concat (map outcome_of (new_events w (snd (create_ssh_key e comment (Some p2) privpath w)))) \<longrightarrow>
       filter is_log (new_events w (snd (create_ssh_key e comment (Some p1) privpath w))) =
         filter is_log (new_events w (snd (create_ssh_key e comment (Some p2) privpath w))))) \<and>
   (5 \<le> length p1 \<and> cmt \<noteq> [] \<and>
    fst (g_mkdir_with_parents e (g_path_get_dirname privpath) w) = 0 \<longrightarrow>
      command_log privpath cmt
        \<in> set (new_events w (snd (create_ssh_key e (Some cmt) (Some p1) privpath w))) \<and>
      filter is_spawn (new_events w (snd (create_ssh_key e (Some cmt) (Some p1) privpath w))) =
        [ESpawnCommandLine (ssh_keygen_command privpath cmt p1)
           (key_spawn_outcome e privpath cmt p1 w)])"
proof (intro conjI impI)
  assume a: "5 \<le> length p1 \<and> 5 \<le> length p2"
  then have l1: "5 \<le> length p1" and l2: "5 \<le> length p2" by simp_all
  show "takeWhile (\<lambda>ev. \<not> is_spawn ev)
          (new_events w (snd (create_ssh_key e comment (Some p1) privpath w))) =
        takeWhile (\<lambda>ev. \<not> is_spawn ev)
          (new_events w (snd (create_ssh_key e comment (Some p2) privpath w)))"
    by (rule create_ssh_key_log_independent(1) [OF l1 l2])
  show "filter is_log (new_events w (snd (create_ssh_key e comment (Some p1) privpath w))) =
         filter is_log (new_events w (snd (create_ssh_key e comment (Some p2) privpath w)))"
    if "concat (map outcome_of (new_events w (snd (create_ssh_key e comment (Some p1) privpath w)))) =
         concat (map outcome_of (new_events w (snd (create_ssh_key e comment (Some p2) privpath w))))"
    using that by (rule create_ssh_key_log_independent(2) [OF l1 l2])
next
  assume a: "5 \<le> length p1 \<and> cmt \<noteq> [] \<and>
    fst (g_mkdir_with_parents e (g_path_get_dirname privpath) w) = 0"
  note ev = create_ssh_key_events(2) [where e = e and privpath = privpath and w = w
      and cmt = cmt and pass = p1]
  show "command_log privpath cmt
        \<in> set (new_events w (snd (create_ssh_key e (Some cmt) (Some p1) privpath w)))"
    using a by (simp add: ev)
  show "filter is_spawn (new_events w (snd (create_ssh_key e (Some cmt) (Some p1) privpath w))) =
        [ESpawnCommandLine (ssh_keygen_command privpath cmt p1)
           (key_spawn_outcome e privpath cmt p1 w)]"
    using a by (simp add: ev command_log_def key_failure_log_def split: option.splits)
qed


lemma idle_create_ssh_key:
  assumes "5 \<le> length p"
  shows "new_events initial_world
           (snd (create_ssh_key idle_env (Some ''c'') (Some p) ''/tmp/key'' initial_world)) =
         [EMkdirWithParents ''/tmp'', command_log ''/tmp/key'' ''c'',
          ESpawnCommandLine (ssh_keygen_command ''/tmp/key'' ''c'' p) exited_zero]"
proof -
  have o: "key_spawn_outcome idle_env ''/tmp/key'' ''c'' p initial_world = exited_zero"
    by (simp add: key_spawn_outcome_def idle_env_def)
  have f: "\<not> invocation_failed exited_zero"
    by (simp add: invocation_failed_def exited_zero_def WIFEXITED_def WEXITSTATUS_def)
  show ?thesis
    using create_ssh_key_events(2) [where e = idle_env and privpath = "''/tmp/key''"
        and w = initial_world and cmt = "''c''" and pass = p] assms
    by (simp add: o f dirname_tmp_key idle_mkdir_tmp)
qed

theorem key_log_redaction_witness:
  "5 \<le> length ''abcde'' \<and> 5 \<le> length ''fghij'' \<and>
   filter is_log (new_events initial_world
     (snd (create_ssh_key idle_env (Some ''c'') (Some ''abcde'') ''/tmp/key'' initial_world))) =
   filter is_log (new_events initial_world
     (snd (create_ssh_key idle_env (Some ''c'') (Some ''fghij'') ''/tmp/key'' initial_world))) \<and>
   filter is_spawn (new_events initial_world
     (snd (create_ssh_key idle_env (Some ''c'') (Some ''abcde'') ''/tmp/key'' initial_world))) =
     [ESpawnCommandLine (ssh_keygen_command ''/tmp/key'' ''c'' ''abcde'')
        (key_spawn_outcome idle_env ''/tmp/key'' ''c'' ''abcde'' initial_world)]"
  using key_log_redaction [where e = idle_env and w = initial_world and comment = "Some ''c''"
      and cmt = "''c''" and privpath = "''/tmp/key''" and ?p1.0 = "''abcde''" and ?p2.0 = "''fghij''"]
    idle_create_ssh_key [of "''abcde''"] idle_create_ssh_key [of "''fghij''"] idle_mkdir_tmp
  by (simp add: dirname_tmp_key)

lemma quoting_mkdir_tmp:
  "fst (g_mkdir_with_parents quoting_env ''/tmp'' initial_world) = 0"
  by (simp add: g_mkdir_with_parents_def quoting_env_def idle_env_def initial_world_def
      ancestors_or_self_def Let_def is_sep_def)

lemma quoting_outcomes:
  \<open>key_spawn_outcome quoting_env ''/tmp/key'' ''c'' ''abcd"'' initial_world =
     \<lparr>spawned = False, exit_status = 0, standard_out = None, standard_err = None,
      err_message = Some (''Text ended before matching quote was found for ". (The text was '' @
         ssh_keygen_command ''/tmp/key'' ''c'' ''abcd"'' @ '')'')\<rparr>\<close>
  \<open>key_spawn_outcome quoting_env ''/tmp/key'' ''c'' ''abcde'' initial_world = exited_zero\<close>
  by (simp_all add: key_spawn_outcome_def quoting_env_def idle_env_def ssh_keygen_command_def)

text \<open>
  Claim C9 at its failing input. The passphrase \<open>abcd"\<close> leaves the command line with
  an unbalanced double quote; the spawn fails with an error message that quotes the
  command line, and \<open>create_ssh_key\<close> logs that message as it is. The log then holds
  the passphrase in clear, and differs from the log for the passphrase \<open>abcde\<close>.
\<close>

theorem key_log_holds_passphrase:
  \<open>5 \<le> length ''abcd"'' \<and> 5 \<le> length ''abcde'' \<and>
   filter is_log (new_events initial_world
     (snd (create_ssh_key quoting_env (Some ''c'') (Some ''abcd"'') ''/tmp/key'' initial_world))) \<noteq>
   filter is_log (new_events initial_world
     (snd (create_ssh_key quoting_env (Some ''c'') (Some ''abcde'') ''/tmp/key'' initial_world))) \<and>
   EDebug ''%s: failed to create private key: %s\<newline>''
     [LStr ''create_ssh_key'',
      LStr (''Text ended before matching quote was found for ". (The text was '' @
            ssh_keygen_command ''/tmp/key'' ''c'' ''abcd"'' @ '')'')]
     \<in> set (new_events initial_world
         (snd (create_ssh_key quoting_env (Some ''c'') (Some ''abcd"'') ''/tmp/key'' initial_world)))\<close>
proof -
  note e1 = create_ssh_key_events(2) [where e = quoting_env and privpath = "''/tmp/key''"
      and w = initial_world and cmt = "''c''" and pass = \<open>''abcd"''\<close>]
  note e2 = create_ssh_key_events(2) [where e = quoting_env and privpath = "''/tmp/key''"
      and w = initial_world and cmt = "''c''" and pass = "''abcde''"]
  have f: "\<not> invocation_failed exited_zero"
    by (simp add: invocation_failed_def exited_zero_def WIFEXITED_def WEXITSTATUS_def)
  have g: \<open>invocation_failed (key_spawn_outcome quoting_env ''/tmp/key'' ''c'' ''abcd"'' initial_world)\<close>
    by (simp add: quoting_outcomes(1) invocation_failed_def)
  have m: \<open>err_message (key_spawn_outcome quoting_env ''/tmp/key'' ''c'' ''abcd"'' initial_world) =
      Some (''Text ended before matching quote was found for ". (The text was '' @
            ssh_keygen_command ''/tmp/key'' ''c'' ''abcd"'' @ '')'')\<close>
    by (simp add: quoting_outcomes(1))
  show ?thesis
    by (simp add: e1 e2 quoting_outcomes(2) quoting_mkdir_tmp dirname_tmp_key f g m
        key_failure_log_def command_log_def)
qed

section \<open>The result of a top-level operation\<close>

lemma create_ssh_key_trace:
  "\<exists>evs. trace (snd (create_ssh_key e comment pass privpath w)) = trace w @ evs \<and>
         filter is_load evs = [] \<and> filter is_workspace_event evs = []"
  by (auto simp: create_ssh_key_def Let_def
      split: option.splits prod.splits if_splits
      dest!: g_mkdir_with_parents_trace g_spawn_command_line_sync_trace)



lemma list_ex_filter_Nil: "filter P xs = [] \<Longrightarrow> \<forall>x. Q x \<longrightarrow> P x \<Longrightarrow> \<not> list_ex Q xs"
  by (auto simp: list_ex_iff filter_empty_conv)















text \<open>The key comes back as a C string: of a key file that holds a NUL byte the caller of
  \<open>lsc_user_keys_create\<close> sees only what precedes it, with return code 0.\<close>

lemma list_ex_False: "list_ex (\<lambda>x. False) xs = False"
  by (simp add: list_ex_iff)

lemma keygen_keys_create:
  "fst (lsc_user_keys_create (keygen_env bytes) (Some ''secret'') initial_world) = 0 \<and>
   fst (snd (lsc_user_keys_create (keygen_env bytes) (Some ''secret'') initial_world)) =
     Some (c_string bytes)"
  by (simp add: lsc_user_keys_create_def create_ssh_key_def mkdtemp_def g_mkdir_with_parents_def
      g_spawn_command_line_sync_def g_file_get_contents_def
      keygen_env_def idle_env_def initial_world_def path_eval idle_not_failed
      case_prod_beta list_ex_False)

lemma keys_create_truncates:
  "fst (lsc_user_keys_create (keygen_env (''ab'' @ [CHR 0x00] @ ''cd'')) (Some ''secret'')
          initial_world) = 0 \<and>
   fst (snd (lsc_user_keys_create (keygen_env (''ab'' @ [CHR 0x00] @ ''cd'')) (Some ''secret'')
               initial_world)) = Some ''ab''"
  using keygen_keys_create [of "''ab'' @ [CHR 0x00] @ ''cd''"] by (simp add: c_string_def)

section \<open>Release of the workspaces\<close>

lemma remove_gone:
  "no_remove_fault e \<Longrightarrow> gvm_file_remove_recurse e d w = (r, w') \<Longrightarrow> d \<notin> dirs w'"
  by (auto simp: gvm_file_remove_recurse_def no_remove_fault_def Let_def under_def split: if_splits)

lemma remove_dirs_subset:
  "gvm_file_remove_recurse e d w = (r, w') \<Longrightarrow> dirs w' \<subseteq> dirs w"
  by (auto simp: gvm_file_remove_recurse_def Let_def split: if_splits)

lemma no_workspace_event:
  assumes "filter is_workspace_event evs = []"
  shows "EMkdtemp d \<notin> set evs" and "ERemoveRecurse d \<notin> set evs"
proof -
  have "\<forall>ev\<in>set evs. \<not> is_workspace_event ev"
    using assms by (simp add: filter_empty_conv)
  then show "EMkdtemp d \<notin> set evs" and "ERemoveRecurse d \<notin> set evs"
    by fastforce+
qed

lemma released_in_outer:
  assumes "evs = EMkdtemp d # mid @ [ERemoveRecurse d]"
    and "EMkdtemp d \<notin> set mid" and "ERemoveRecurse d \<notin> set mid"
  shows "released_in d evs"
  unfolding released_in_def
  by (rule exI [of _ "[]"], rule exI [of _ mid], rule exI [of _ "[]"]) (use assms in simp)

lemma released_in_inner:
  assumes "evs = pre @ EMkdtemp d # mid @ ERemoveRecurse d # post"
    and "EMkdtemp d \<notin> set pre" "EMkdtemp d \<notin> set mid" "EMkdtemp d \<notin> set post"
    and "ERemoveRecurse d \<notin> set pre" "ERemoveRecurse d \<notin> set mid" "ERemoveRecurse d \<notin> set post"
  shows "released_in d evs"
  unfolding released_in_def
  by (rule exI [of _ pre], rule exI [of _ mid], rule exI [of _ post]) (use assms in simp)

lemma keys_create_released:
  assumes mk: "mkdtemp e ''/tmp/openvas_key_XXXXXX'' w = (Some d, w1)"
  shows "released_in d (new_events w (snd (snd (lsc_user_keys_create e password w))))"
    and "no_remove_fault e \<Longrightarrow> d \<notin> dirs (snd (snd (lsc_user_keys_create e password w)))"
proof -
  note t1 = mkdtemp_trace [OF mk, simplified]
  let ?path = "g_build_filename [d, ''key'']"
  obtain rc w2 where ck: "create_ssh_key e (Some ''Key generated by GVM'') password ?path w1 = (rc, w2)"
    by (cases "create_ssh_key e (Some ''Key generated by GVM'') password ?path w1")
  obtain evs where t2: "trace w2 = trace w1 @ evs" and nw: "filter is_workspace_event evs = []"
    using create_ssh_key_trace [of e "Some ''Key generated by GVM''" password ?path w1] ck
    by auto
  obtain c w3 where gc: "g_file_get_contents e ?path w2 = (c, w3)"
    by (cases "g_file_get_contents e ?path w2")
  note t3 = g_file_get_contents_trace [OF gc]
  obtain x w4 where rm1: "gvm_file_remove_recurse e d w2 = (x, w4)"
    by (cases "gvm_file_remove_recurse e d w2")
  obtain y w5 where rm2: "gvm_file_remove_recurse e d w3 = (y, w5)"
    by (cases "gvm_file_remove_recurse e d w3")
  have unf: "snd (snd (lsc_user_keys_create e password w)) = (if rc \<noteq> 0 then w4 else w5)"
    by (simp add: lsc_user_keys_create_def mk ck gc rm1 rm2 Let_def split: option.splits)
  have tr: "trace (if rc \<noteq> 0 then w4 else w5) =
      trace w @ EMkdtemp d # (evs @ (if rc \<noteq> 0 then [] else [EGetContents ?path c])) @ [ERemoveRecurse d]"
    using gvm_file_remove_recurse_trace [OF rm1] gvm_file_remove_recurse_trace [OF rm2]
    by (simp add: t1 t2 t3)
  show "released_in d (new_events w (snd (snd (lsc_user_keys_create e password w))))"
    unfolding unf new_events_append [OF tr]
    by (rule released_in_outer [OF refl]) (use no_workspace_event [OF nw] in auto)
  show "d \<notin> dirs (snd (snd (lsc_user_keys_create e password w)))" if "no_remove_fault e"
    unfolding unf using remove_gone [OF that rm1] remove_gone [OF that rm2] by simp
qed

lemma exe_recreate_released:
  assumes mk: "mkdtemp e ''/tmp/exe_XXXXXX'' w = (Some d, w1)"
  shows "released_in d (new_events w (snd (snd (lsc_user_exe_recreate e name password w))))"
    and "no_remove_fault e \<Longrightarrow> d \<notin> dirs (snd (snd (lsc_user_exe_recreate e name password w)))"
proof -
  note t1 = mkdtemp_trace [OF mk, simplified]
  let ?path = "g_build_filename [d, ''p.nsis'']"
  obtain rc w2 where ck: "lsc_user_exe_create e name password ?path w1 = (rc, w2)"
    by (cases "lsc_user_exe_create e name password ?path w1")
  obtain evs where t2: "trace w2 = trace w1 @ evs" and nw: "filter is_workspace_event evs = []"
    using lsc_user_exe_create_events(5) [of e name password ?path w1] ck by auto
  obtain c w3 where gc: "g_file_get_contents e ?path w2 = (c, w3)"
    by (cases "g_file_get_contents e ?path w2")
  note t3 = g_file_get_contents_trace [OF gc]
  obtain x w4 where rm1: "gvm_file_remove_recurse e d w2 = (x, w4)"
    by (cases "gvm_file_remove_recurse e d w2")
  obtain y w5 where rm2: "gvm_file_remove_recurse e d w3 = (y, w5)"
    by (cases "gvm_file_remove_recurse e d w3")
  have unf: "snd (snd (lsc_user_exe_recreate e name password w)) = (if rc \<noteq> 0 then w4 else w5)"
    by (simp add: lsc_user_exe_recreate_def mk ck gc rm1 rm2 Let_def split: option.splits)
  have tr: "trace (if rc \<noteq> 0 then w4 else w5) =
      trace w @ EMkdtemp d # (evs @ (if rc \<noteq> 0 then [] else [EGetContents ?path c])) @ [ERemoveRecurse d]"
    using gvm_file_remove_recurse_trace [OF rm1] gvm_file_remove_recurse_trace [OF rm2]
    by (simp add: t1 t2 t3)
  show "released_in d (new_events w (snd (snd (lsc_user_exe_recreate e name password w))))"
    unfolding unf new_events_append [OF tr]
    by (rule released_in_outer [OF refl]) (use no_workspace_event [OF nw] in auto)
  show "d \<notin> dirs (snd (snd (lsc_user_exe_recreate e name password w)))" if "no_remove_fault e"
    unfolding unf using remove_gone [OF that rm1] remove_gone [OF that rm2] by simp
qed


lemma g_file_set_contents_dirs:
  "g_file_set_contents e p c w = (r, w') \<Longrightarrow> dirs w' = dirs w"
  by (auto simp: g_file_set_contents_def Let_def split: if_splits)

lemma rpm_recreate_released:
  fixes e name public_key w
  assumes mk: "mkdtemp e ''/tmp/key_XXXXXX'' w = (Some d, w1)"
  defines "fin \<equiv> snd (snd (lsc_user_rpm_recreate e name public_key w))"
  shows "released_in d (new_events w fin)"
    and "no_remove_fault e \<Longrightarrow> d \<notin> dirs fin"
    and "new_events w fin = EMkdtemp d # ESetContents p # EMkdtemp d' # rest \<Longrightarrow>
           released_in d' (new_events w fin) \<and> (no_remove_fault e \<longrightarrow> d' \<notin> dirs fin)"
proof -
  note t1 = mkdtemp_trace [OF mk, simplified]
  have d1: "dirs w1 = insert d (dirs w)"
    using mkdtemp_Some [OF mk] by simp
  let ?key = "g_build_filename [d, ''key.pub'']"
  obtain written w2 where sc: "g_file_set_contents e ?key public_key w1 = (written, w2)"
    by (cases "g_file_set_contents e ?key public_key w1")
  note t2 = g_file_set_contents_trace [OF sc]
  note d2 = g_file_set_contents_dirs [OF sc]
  obtain r3 w3 where mk2: "mkdtemp e ''/tmp/rpm_XXXXXX'' w2 = (r3, w3)"
    by (cases "mkdtemp e ''/tmp/rpm_XXXXXX'' w2")
  have "released_in d (new_events w fin) \<and> (no_remove_fault e \<longrightarrow> d \<notin> dirs fin) \<and>
    (new_events w fin = EMkdtemp d # ESetContents p # EMkdtemp d' # rest \<longrightarrow>
       released_in d' (new_events w fin) \<and> (no_remove_fault e \<longrightarrow> d' \<notin> dirs fin))"
  proof (cases "written \<and> r3 \<noteq> None")
    case False
    obtain x wa where rma: "gvm_file_remove_recurse e d w2 = (x, wa)"
      by (cases "gvm_file_remove_recurse e d w2")
    have w3: "r3 = None \<Longrightarrow> w3 = w2"
      using mk2 mkdtemp_None by blast
    have fin: "fin = wa"
      using False w3
      by (auto simp: fin_def lsc_user_rpm_recreate_def mk sc mk2 rma Let_def)
    have tr: "trace wa = trace w @ EMkdtemp d # [ESetContents ?key] @ [ERemoveRecurse d]"
      using gvm_file_remove_recurse_trace [OF rma] by (simp add: t1 t2)
    have "released_in d (new_events w fin)"
      unfolding fin new_events_append [OF tr]
      by (rule released_in_outer [OF refl]) simp_all
    moreover have "d \<notin> dirs fin" if "no_remove_fault e"
      unfolding fin by (rule remove_gone [OF that rma])
    moreover have "new_events w fin \<noteq> EMkdtemp d # ESetContents p # EMkdtemp d' # rest"
      unfolding fin new_events_append [OF tr] by simp
    ultimately show ?thesis by blast
  next
    case True
    then obtain rd where r3: "r3 = Some rd" and wr: "written" by auto
    note t3 = mkdtemp_trace [OF mk2 [unfolded r3], simplified]
    have d3: "dirs w3 = insert rd (dirs w2)" and fresh: "rd \<notin> dirs w2"
      using mkdtemp_Some [OF mk2 [unfolded r3]] by simp_all
    have ne: "rd \<noteq> d" using fresh by (auto simp: d2 d1)
    let ?rpm = "g_build_filename [rd, ''p.rpm'']"
    let ?w4 = "g_debug ''%s: rpm_path: %s'' [LStr ''lsc_user_rpm_recreate'', LStr ?rpm] w3"
    obtain built w5 where bd: "lsc_user_rpm_create e name ?key ?rpm ?w4 = (built, w5)"
      by (cases "lsc_user_rpm_create e name ?key ?rpm ?w4")
    obtain evs where t5: "trace w5 = trace ?w4 @ evs"
      and own: "\<forall>x. EMkdtemp x \<in> set evs \<or> ERemoveRecurse x \<in> set evs \<longrightarrow> x \<notin> dirs ?w4"
      using lsc_user_rpm_create_events [of e name ?key ?rpm ?w4] bd by auto
    have in4: "d \<in> dirs ?w4" "rd \<in> dirs ?w4" by (simp_all add: d3 d2 d1)
    have o1: "EMkdtemp d \<notin> set evs" "ERemoveRecurse d \<notin> set evs"
      and o2: "EMkdtemp rd \<notin> set evs" "ERemoveRecurse rd \<notin> set evs"
      using own in4 by blast+
    obtain c w6 where gc: "g_file_get_contents e ?rpm w5 = (c, w6)"
      by (cases "g_file_get_contents e ?rpm w5")
    note t6 = g_file_get_contents_trace [OF gc]
    let ?w6 = "if built then w6 else w5"
    obtain x1 w7 where rm1: "gvm_file_remove_recurse e rd ?w6 = (x1, w7)"
      by (cases "gvm_file_remove_recurse e rd ?w6")
    obtain x2 w8 where rm2: "gvm_file_remove_recurse e d w7 = (x2, w8)"
      by (cases "gvm_file_remove_recurse e d w7")
    have fin: "fin = w8"
      using r3 wr rm1 rm2
      by (cases built; cases c)
        (simp_all add: fin_def lsc_user_rpm_recreate_def mk sc mk2 bd gc Let_def)
    let ?mid = "EDebug ''%s: rpm_path: %s'' [LStr ''lsc_user_rpm_recreate'', LStr ?rpm] #
                evs @ (if built then [EGetContents ?rpm c] else [])"
    have tr: "trace w8 = trace w @
        [EMkdtemp d, ESetContents ?key] @ EMkdtemp rd # ?mid @ ERemoveRecurse rd # [ERemoveRecurse d]"
      using gvm_file_remove_recurse_trace [OF rm1] gvm_file_remove_recurse_trace [OF rm2]
      by (simp add: t1 t2 t3 t5 t6)
    have tr': "trace w8 = trace w @
        EMkdtemp d # (ESetContents ?key # EMkdtemp rd # ?mid @ [ERemoveRecurse rd]) @ [ERemoveRecurse d]"
      by (simp add: tr)
    have a: "released_in d (new_events w fin)"
      unfolding fin new_events_append [OF tr']
      by (rule released_in_outer [OF refl]) (use o1 ne in auto)
    have b: "released_in rd (new_events w fin)"
      unfolding fin new_events_append [OF tr]
      by (rule released_in_inner [OF refl]) (use o2 ne in auto)
    have c': "d \<notin> dirs fin" if "no_remove_fault e"
      unfolding fin by (rule remove_gone [OF that rm2])
    have d': "rd \<notin> dirs fin" if "no_remove_fault e"
      using remove_gone [OF that rm1] remove_dirs_subset [OF rm2] unfolding fin by blast
    have "d' = rd" if "new_events w fin = EMkdtemp d # ESetContents p # EMkdtemp d' # rest"
      using that unfolding fin new_events_append [OF tr] by simp
    with a b c' d' show ?thesis by blast
  qed
  then show "released_in d (new_events w fin)"
    and "no_remove_fault e \<Longrightarrow> d \<notin> dirs fin"
    and "new_events w fin = EMkdtemp d # ESetContents p # EMkdtemp d' # rest \<Longrightarrow>
           released_in d' (new_events w fin) \<and> (no_remove_fault e \<longrightarrow> d' \<notin> dirs fin)"
    by blast+
qed
lemma deb_recreate_released:
  fixes e name public_key maintainer w
  assumes mk: "mkdtemp e ''/tmp/key_XXXXXX'' w = (Some d, w1)"
  defines "fin \<equiv> snd (snd (lsc_user_deb_recreate e name public_key maintainer w))"
  shows "released_in d (new_events w fin)"
    and "no_remove_fault e \<Longrightarrow> d \<notin> dirs fin"
    and "new_events w fin = EMkdtemp d # ESetContents p # EMkdtemp d' # rest \<Longrightarrow>
           released_in d' (new_events w fin) \<and> (no_remove_fault e \<longrightarrow> d' \<notin> dirs fin)"
proof -
  note t1 = mkdtemp_trace [OF mk, simplified]
  have d1: "dirs w1 = insert d (dirs w)"
    using mkdtemp_Some [OF mk] by simp
  let ?key = "g_build_filename [d, ''key.pub'']"
  obtain written w2 where sc: "g_file_set_contents e ?key public_key w1 = (written, w2)"
    by (cases "g_file_set_contents e ?key public_key w1")
  note t2 = g_file_set_contents_trace [OF sc]
  note d2 = g_file_set_contents_dirs [OF sc]
  obtain r3 w3 where mk2: "mkdtemp e ''/tmp/deb_XXXXXX'' w2 = (r3, w3)"
    by (cases "mkdtemp e ''/tmp/deb_XXXXXX'' w2")
  have "released_in d (new_events w fin) \<and> (no_remove_fault e \<longrightarrow> d \<notin> dirs fin) \<and>
    (new_events w fin = EMkdtemp d # ESetContents p # EMkdtemp d' # rest \<longrightarrow>
       released_in d' (new_events w fin) \<and> (no_remove_fault e \<longrightarrow> d' \<notin> dirs fin))"
  proof (cases "written \<and> r3 \<noteq> None")
    case False
    obtain x wa where rma: "gvm_file_remove_recurse e d w2 = (x, wa)"
      by (cases "gvm_file_remove_recurse e d w2")
    have w3: "r3 = None \<Longrightarrow> w3 = w2"
      using mk2 mkdtemp_None by blast
    have fin: "fin = wa"
      using False w3
      by (auto simp: fin_def lsc_user_deb_recreate_def mk sc mk2 rma Let_def)
    have tr: "trace wa = trace w @ EMkdtemp d # [ESetContents ?key] @ [ERemoveRecurse d]"
      using gvm_file_remove_recurse_trace [OF rma] by (simp add: t1 t2)
    have "released_in d (new_events w fin)"
      unfolding fin new_events_append [OF tr]
      by (rule released_in_outer [OF refl]) simp_all
    moreover have "d \<notin> dirs fin" if "no_remove_fault e"
      unfolding fin by (rule remove_gone [OF that rma])
    moreover have "new_events w fin \<noteq> EMkdtemp d # ESetContents p # EMkdtemp d' # rest"
      unfolding fin new_events_append [OF tr] by simp
    ultimately show ?thesis by blast
  next
    case True
    then obtain rd where r3: "r3 = Some rd" and wr: "written" by auto
    note t3 = mkdtemp_trace [OF mk2 [unfolded r3], simplified]
    have d3: "dirs w3 = insert rd (dirs w2)" and fresh: "rd \<notin> dirs w2"
      using mkdtemp_Some [OF mk2 [unfolded r3]] by simp_all
    have ne: "rd \<noteq> d" using fresh by (auto simp: d2 d1)
    let ?deb = "g_build_filename [rd, ''p.deb'']"
    let ?w4 = "g_debug ''%s: deb_path: %s'' [LStr ''lsc_user_deb_recreate'', LStr ?deb] w3"
    obtain built w5 where bd: "lsc_user_deb_create e name ?key ?deb maintainer ?w4 = (built, w5)"
      by (cases "lsc_user_deb_create e name ?key ?deb maintainer ?w4")
    obtain evs where t5: "trace w5 = trace ?w4 @ evs"
      and own: "\<forall>x. EMkdtemp x \<in> set evs \<or> ERemoveRecurse x \<in> set evs \<longrightarrow> x \<notin> dirs ?w4"
      using lsc_user_deb_create_events [of e name ?key ?deb maintainer ?w4] bd by auto
    have in4: "d \<in> dirs ?w4" "rd \<in> dirs ?w4" by (simp_all add: d3 d2 d1)
    have o1: "EMkdtemp d \<notin> set evs" "ERemoveRecurse d \<notin> set evs"
      and o2: "EMkdtemp rd \<notin> set evs" "ERemoveRecurse rd \<notin> set evs"
      using own in4 by blast+
    obtain c w6 where gc: "g_file_get_contents e ?deb w5 = (c, w6)"
      by (cases "g_file_get_contents e ?deb w5")
    note t6 = g_file_get_contents_trace [OF gc]
    let ?w6 = "if built then w6 else w5"
    obtain x1 w7 where rm1: "gvm_file_remove_recurse e rd ?w6 = (x1, w7)"
      by (cases "gvm_file_remove_recurse e rd ?w6")
    obtain x2 w8 where rm2: "gvm_file_remove_recurse e d w7 = (x2, w8)"
      by (cases "gvm_file_remove_recurse e d w7")
    have fin: "fin = w8"
      using r3 wr rm1 rm2
      by (cases built; cases c)
        (simp_all add: fin_def lsc_user_deb_recreate_def mk sc mk2 bd gc Let_def)
    let ?mid = "EDebug ''%s: deb_path: %s'' [LStr ''lsc_user_deb_recreate'', LStr ?deb] #
                evs @ (if built then [EGetContents ?deb c] else [])"
    have tr: "trace w8 = trace w @
        [EMkdtemp d, ESetContents ?key] @ EMkdtemp rd # ?mid @ ERemoveRecurse rd # [ERemoveRecurse d]"
      using gvm_file_remove_recurse_trace [OF rm1] gvm_file_remove_recurse_trace [OF rm2]
      by (simp add: t1 t2 t3 t5 t6)
    have tr': "trace w8 = trace w @
        EMkdtemp d # (ESetContents ?key # EMkdtemp rd # ?mid @ [ERemoveRecurse rd]) @ [ERemoveRecurse d]"
      by (simp add: tr)
    have a: "released_in d (new_events w fin)"
      unfolding fin new_events_append [OF tr']
      by (rule released_in_outer [OF refl]) (use o1 ne in auto)
    have b: "released_in rd (new_events w fin)"
      unfolding fin new_events_append [OF tr]
      by (rule released_in_inner [OF refl]) (use o2 ne in auto)
    have c': "d \<notin> dirs fin" if "no_remove_fault e"
      unfolding fin by (rule remove_gone [OF that rm2])
    have d': "rd \<notin> dirs fin" if "no_remove_fault e"
      using remove_gone [OF that rm1] remove_dirs_subset [OF rm2] unfolding fin by blast
    have "d' = rd" if "new_events w fin = EMkdtemp d # ESetContents p # EMkdtemp d' # rest"
      using that unfolding fin new_events_append [OF tr] by simp
    with a b c' d' show ?thesis by blast
  qed
  then show "released_in d (new_events w fin)"
    and "no_remove_fault e \<Longrightarrow> d \<notin> dirs fin"
    and "new_events w fin = EMkdtemp d # ESetContents p # EMkdtemp d' # rest \<Longrightarrow>
           released_in d' (new_events w fin) \<and> (no_remove_fault e \<longrightarrow> d' \<notin> dirs fin)"
    by blast+
qed

text \<open>
  Claim C5, as amended. For the directories the four top-level functions create
  themselves (the key directory, the package directory of the RPM and DEB operations,
  the installer directory): on every path \<open>gvm_file_remove_recurse\<close> is called on
  the directory exactly once, after its creation, the package directory and the key
  directory each on their own; and when no removal fails, none of them exists when the
  operation returns.
\<close>

theorem workspaces_released:
  "(fst (mkdtemp e ''/tmp/openvas_key_XXXXXX'' w) = Some d \<longrightarrow>
      released_in d (new_events w (snd (snd (lsc_user_keys_create e password w)))) \<and>
      (no_remove_fault e \<longrightarrow> d \<notin> dirs (snd (snd (lsc_user_keys_create e password w))))) \<and>
   (fst (mkdtemp e ''/tmp/exe_XXXXXX'' w) = Some d \<longrightarrow>
      released_in d (new_events w (snd (snd (lsc_user_exe_recreate e name exe_password w)))) \<and>
      (no_remove_fault e \<longrightarrow>
         d \<notin> dirs (snd (snd (lsc_user_exe_recreate e name exe_password w))))) \<and>
   (fst (mkdtemp e ''/tmp/key_XXXXXX'' w) = Some d \<longrightarrow>
      released_in d (new_events w (snd (snd (lsc_user_rpm_recreate e name public_key w)))) \<and>
      (no_remove_fault e \<longrightarrow>
         d \<notin> dirs (snd (snd (lsc_user_rpm_recreate e name public_key w)))) \<and>
      (\<forall>p d' rest.
          new_events w (snd (snd (lsc_user_rpm_recreate e name public_key w))) =
            EMkdtemp d # ESetContents p # EMkdtemp d' # rest \<longrightarrow>
          released_in d' (new_events w (snd (snd (lsc_user_rpm_recreate e name public_key w)))) \<and>
          (no_remove_fault e \<longrightarrow>
             d' \<notin> dirs (snd (snd (lsc_user_rpm_recreate e name public_key w)))))) \<and>
   (fst (mkdtemp e ''/tmp/key_XXXXXX'' w) = Some d \<longrightarrow>
      released_in d (new_events w (snd (snd (lsc_user_deb_recreate e name public_key maintainer w)))) \<and>
      (no_remove_fault e \<longrightarrow>
         d \<notin> dirs (snd (snd (lsc_user_deb_recreate e name public_key maintainer w)))) \<and>
      (\<forall>p d' rest.
          new_events w (snd (snd (lsc_user_deb_recreate e name public_key maintainer w))) =
            EMkdtemp d # ESetContents p # EMkdtemp d' # rest \<longrightarrow>
          released_in d' (new_events w (snd (snd (lsc_user_deb_recreate e name public_key maintainer w)))) \<and>
          (no_remove_fault e \<longrightarrow>
             d' \<notin> dirs (snd (snd (lsc_user_deb_recreate e name public_key maintainer w))))))"
proof -
  have k: "mkdtemp e t w = (Some d, snd (mkdtemp e t w))" if "fst (mkdtemp e t w) = Some d" for t
    using that by (cases "mkdtemp e t w") simp
  show ?thesis
    using keys_create_released [OF k, of password]
      exe_recreate_released [OF k, of name exe_password]
      rpm_recreate_released [OF k, of name public_key]
      deb_recreate_released [OF k, of name public_key maintainer]
    by blast
qed

lemma idle_no_remove_fault: "no_remove_fault idle_env"
  by (simp add: no_remove_fault_def idle_env_def)

lemma idle_mkdtemp_key_dir:
  "fst (mkdtemp idle_env ''/tmp/key_XXXXXX'' initial_world) = Some ''/tmp/key_aaaaaa''"
  by (simp add: mkdtemp_def idle_env_def initial_world_def path_eval)

lemmas eval_defs =
  lsc_user_rpm_recreate_def lsc_user_rpm_create_def lsc_user_deb_recreate_def
  lsc_user_deb_create_def mkdtemp_def g_file_set_contents_def gvm_file_copy_def g_spawn_sync_def g_file_get_contents_def
  gvm_file_remove_recurse_def idle_env_def initial_world_def path_eval idle_not_failed under_def

lemma idle_rpm_first_events:
  "take 3 (new_events initial_world
      (snd (snd (lsc_user_rpm_recreate idle_env ''alice'' ''key'' initial_world)))) =
     [EMkdtemp ''/tmp/key_aaaaaa'', ESetContents ''/tmp/key_aaaaaa/key.pub'',
      EMkdtemp ''/tmp/rpm_aaaaaa'']"
  by (simp add: eval_defs new_events_def)

theorem workspaces_released_witness:
  "fst (mkdtemp idle_env ''/tmp/key_XXXXXX'' initial_world) = Some ''/tmp/key_aaaaaa'' \<and>
   no_remove_fault idle_env \<and>
   released_in ''/tmp/key_aaaaaa'' (new_events initial_world
     (snd (snd (lsc_user_rpm_recreate idle_env ''alice'' ''key'' initial_world)))) \<and>
   ''/tmp/key_aaaaaa'' \<notin> dirs (snd (snd (lsc_user_rpm_recreate idle_env ''alice'' ''key'' initial_world))) \<and>
   released_in ''/tmp/rpm_aaaaaa'' (new_events initial_world
     (snd (snd (lsc_user_rpm_recreate idle_env ''alice'' ''key'' initial_world)))) \<and>
   ''/tmp/rpm_aaaaaa'' \<notin> dirs (snd (snd (lsc_user_rpm_recreate idle_env ''alice'' ''key'' initial_world)))"
proof -
  let ?evs = "new_events initial_world
     (snd (snd (lsc_user_rpm_recreate idle_env ''alice'' ''key'' initial_world)))"
  have "?evs = take 3 ?evs @ drop 3 ?evs" by simp
  then have shape: "?evs = EMkdtemp ''/tmp/key_aaaaaa'' # ESetContents ''/tmp/key_aaaaaa/key.pub'' #
      EMkdtemp ''/tmp/rpm_aaaaaa'' # drop 3 ?evs"
    unfolding idle_rpm_first_events by simp
  from workspaces_released [where e = idle_env and w = initial_world and d = "''/tmp/key_aaaaaa''"
      and name = "''alice''" and public_key = "''key''"]
  show ?thesis
    using idle_mkdtemp_key_dir idle_no_remove_fault shape by blast
qed

text \<open>
  Claim C5 as stated fails: the result of \<open>gvm_file_remove_recurse\<close> is not looked at
  by the top-level functions, so where the removals fail the operation returns with its
  directories still there.
\<close>

theorem failed_removal_leaves_workspace_counterexample:
  "''/tmp/key_aaaaaa'' \<notin> dirs initial_world \<and> ''/tmp/rpm_aaaaaa'' \<notin> dirs initial_world \<and>
   ''/tmp/key_aaaaaa''
     \<in> dirs (snd (snd (lsc_user_rpm_recreate stuck_env ''alice'' ''key'' initial_world))) \<and>
   ''/tmp/rpm_aaaaaa''
     \<in> dirs (snd (snd (lsc_user_rpm_recreate stuck_env ''alice'' ''key'' initial_world))) \<and>
   ERemoveRecurse ''/tmp/key_aaaaaa''
     \<in> set (trace (snd (snd (lsc_user_rpm_recreate stuck_env ''alice'' ''key'' initial_world)))) \<and>
   ERemoveRecurse ''/tmp/rpm_aaaaaa''
     \<in> set (trace (snd (snd (lsc_user_rpm_recreate stuck_env ''alice'' ''key'' initial_world))))"
  by (simp add: lsc_user_rpm_recreate_def lsc_user_rpm_create_def mkdtemp_def
      g_file_set_contents_def gvm_file_copy_def g_spawn_sync_def g_file_get_contents_def
      gvm_file_remove_recurse_def stuck_env_def idle_env_def initial_world_def path_eval
      idle_not_failed under_def)

text \<open>
  Claim C8 at its failing input. With the user name \<open>a/b\<close> the copy of the public key
  into the builder's temporary directory fails (its destination lies in a directory
  that does not exist); \<open>lsc_user_rpm_create\<close> and \<open>lsc_user_deb_create\<close> then
  return without calling \<open>gvm_file_remove_recurse\<close>, so the directory they created
  is never destroyed and is still there when the top-level operation has returned.
\<close>

theorem builder_workspace_not_destroyed:
  "fst (lsc_user_rpm_recreate idle_env ''a/b'' ''key'' initial_world) = -1 \<and>
   EMkdtemp ''/tmp/lsc_user_rpm_create_aaaaaa''
     \<in> set (trace (snd (snd (lsc_user_rpm_recreate idle_env ''a/b'' ''key'' initial_world)))) \<and>
   filter (\<lambda>ev. ev = ERemoveRecurse ''/tmp/lsc_user_rpm_create_aaaaaa'')
     (trace (snd (snd (lsc_user_rpm_recreate idle_env ''a/b'' ''key'' initial_world)))) = [] \<and>
   ''/tmp/lsc_user_rpm_create_aaaaaa''
     \<in> dirs (snd (snd (lsc_user_rpm_recreate idle_env ''a/b'' ''key'' initial_world))) \<and>
   fst (lsc_user_deb_recreate idle_env ''a/b'' ''key'' ''m@example.com'' initial_world) = -1 \<and>
   EMkdtemp ''/tmp/lsc_user_deb_create_aaaaaa''
     \<in> set (trace (snd (snd (lsc_user_deb_recreate idle_env ''a/b'' ''key'' ''m@example.com'' initial_world)))) \<and>
   filter (\<lambda>ev. ev = ERemoveRecurse ''/tmp/lsc_user_deb_create_aaaaaa'')
     (trace (snd (snd (lsc_user_deb_recreate idle_env ''a/b'' ''key'' ''m@example.com'' initial_world)))) = [] \<and>
   ''/tmp/lsc_user_deb_create_aaaaaa''
     \<in> dirs (snd (snd (lsc_user_deb_recreate idle_env ''a/b'' ''key'' ''m@example.com'' initial_world)))"
  by (simp add: eval_defs)

end
